theory Spec2Isabelle
  imports Main "HOL-Library.Sublist"
begin

section \<open>JavaScript values and the built-ins the code calls\<close>

text \<open>
  The client is JavaScript. A value that travels through \<^verbatim>\<open>JSON.stringify\<close>,
  \<^verbatim>\<open>JSON.parse\<close> or an HTTP body is a JSON value. Numbers are the integers the code
  computes with (time stamps in milliseconds, status codes, page numbers). A string is
  the list of its code units. An object is the list of its properties in insertion
  order; \<^verbatim>\<open>undefined\<close> (a missing property) is \<open>None\<close> of an option.
\<close>

datatype json =
    JNull
  | JBool bool
  | JNum int
  | JStr string
  | JArr "json list"
  | JObj "(string \<times> json) list"

text \<open>JavaScript truthiness of a JSON value (\<^verbatim>\<open>if (token)\<close>, \<^verbatim>\<open>a || b\<close>).\<close>

fun truthy :: "json \<Rightarrow> bool" where
  "truthy JNull = False"
| "truthy (JBool b) = b"
| "truthy (JNum n) = (n \<noteq> 0)"
| "truthy (JStr s) = (s \<noteq> [])"
| "truthy (JArr xs) = True"
| "truthy (JObj kvs) = True"

text \<open>Property access \<^verbatim>\<open>v.name\<close>: only an object of the model has own properties.\<close>

fun get_field :: "json \<Rightarrow> string \<Rightarrow> json option" where
  "get_field (JObj kvs) name = map_of kvs name"
| "get_field v name = None"

text \<open>
  The built-in functions of the JavaScript runtime are not code of this repository, so
  they are parameters of the model: \<open>JSON_parse\<close> returns \<open>None\<close> where
  \<^verbatim>\<open>JSON.parse\<close> throws a SyntaxError; \<open>ToString\<close> and \<open>ToNumber\<close> are the
  coercions of a template literal and of the subtraction operator on values that are
  not already a string or a number (\<open>None\<close> is NaN); \<open>trim\<close> and \<open>toLowerCase\<close>
  are the methods of String.
\<close>

record js_builtins =
  JSON_stringify :: "json \<Rightarrow> string"
  JSON_parse :: "string \<Rightarrow> json option"
  ToString :: "json \<Rightarrow> string"
  ToNumber :: "json \<Rightarrow> int option"
  trim :: "string \<Rightarrow> string"
  toLowerCase :: "string \<Rightarrow> string"

text \<open>
  A value is JSON-serializable when \<^verbatim>\<open>JSON.parse(JSON.stringify(v))\<close> gives \<open>v\<close>
  back; the text of a JSON value is never empty.
\<close>

definition serializable :: "js_builtins \<Rightarrow> json \<Rightarrow> bool" where
  "serializable b v \<longleftrightarrow>
     JSON_parse b (JSON_stringify b v) = Some v \<and> JSON_stringify b v \<noteq> []"

section \<open>Local storage and the storage wrapper (utils/helpers.js)\<close>

text \<open>
  The browser's \<^verbatim>\<open>localStorage\<close>: the stored items, and which writes the browser
  accepts. \<^verbatim>\<open>setItem\<close> throws a QuotaExceededError when the browser does not accept
  the write (quota used up, storage disabled); \<^verbatim>\<open>getItem\<close> and \<^verbatim>\<open>removeItem\<close>
  do not throw.
\<close>

record web_storage =
  items :: "string \<rightharpoonup> string"
  accepts :: "string \<Rightarrow> string \<Rightarrow> bool"

datatype dom_exception = QuotaExceededError

definition getItem :: "web_storage \<Rightarrow> string \<Rightarrow> string option" where
  "getItem ls key = items ls key"

definition setItem :: "web_storage \<Rightarrow> string \<Rightarrow> string \<Rightarrow> dom_exception + web_storage" where
  "setItem ls key text =
     (if accepts ls key text then Inr (ls\<lparr>items := (items ls)(key \<mapsto> text)\<rparr>)
      else Inl QuotaExceededError)"

definition removeItem :: "web_storage \<Rightarrow> string \<Rightarrow> web_storage" where
  "removeItem ls key = ls\<lparr>items := (items ls)(key := None)\<rparr>"

text \<open>
  \<^verbatim>\<open>storage.get\<close>: \<^verbatim>\<open>item ? JSON.parse(item) : null\<close> inside try/catch; a missing
  item, an empty item and an item that does not parse all give \<^verbatim>\<open>null\<close>.
\<close>

definition storage_get :: "js_builtins \<Rightarrow> string \<Rightarrow> web_storage \<Rightarrow> json" where
  "storage_get b key ls =
     (case getItem ls key of
        None \<Rightarrow> JNull
      | Some item \<Rightarrow>
          (if item = [] then JNull
           else (case JSON_parse b item of None \<Rightarrow> JNull | Some v \<Rightarrow> v)))"

text \<open>
  \<^verbatim>\<open>storage.set\<close>: returns true after the write, false when \<^verbatim>\<open>setItem\<close> threw;
  then nothing was written.
\<close>

definition storage_set :: "js_builtins \<Rightarrow> string \<Rightarrow> json \<Rightarrow> web_storage \<Rightarrow> bool \<times> web_storage" where
  "storage_set b key v ls =
     (case setItem ls key (JSON_stringify b v) of
        Inr ls' \<Rightarrow> (True, ls')
      | Inl e \<Rightarrow> (False, ls))"

definition storage_remove :: "string \<Rightarrow> web_storage \<Rightarrow> bool \<times> web_storage" where
  "storage_remove key ls = (True, removeItem ls key)"

section \<open>Requests, responses and errors\<close>

text \<open>
  The properties of an axios request config, of a response and of an error object that
  the code reads or writes. \<open>retry_mark\<close> is the \<^verbatim>\<open>_retry\<close> property an interceptor
  puts on a config. Error objects are untyped in the source: the raw axios error has
  \<^verbatim>\<open>response\<close>, \<^verbatim>\<open>request\<close>, \<^verbatim>\<open>config\<close>, \<^verbatim>\<open>code\<close> and \<^verbatim>\<open>message\<close>; the error
  that \<^verbatim>\<open>handleApiError\<close> builds has \<^verbatim>\<open>status\<close>, \<^verbatim>\<open>message\<close> and \<^verbatim>\<open>type\<close> only.
  An absent property is \<open>None\<close> (\<open>False\<close> for \<open>e_request\<close>, which is only tested).
\<close>

record request_config =
  req_method :: string
  url :: string
  req_data :: "json option"
  params :: "json option"
  headers_Authorization :: "string option"
  retry_mark :: bool

record http_response =
  status :: int
  data :: json

record js_error =
  e_response :: "http_response option"
  e_request :: bool
  e_config :: "request_config option"
  e_code :: "string option"
  e_message :: "json option"
  e_status :: "int option"
  e_type :: "string option"
  e_name :: "string option"

text \<open>
  What the client holds: local storage, the default Authorization header of the axios
  instance, the last value assigned to \<^verbatim>\<open>window.location.href\<close>, the requests put on
  the wire (oldest first), and the React state of the AuthProvider.
\<close>

record client_state =
  localStorage :: web_storage
  defaults_Authorization :: "string option"
  location_href :: "string option"
  sent :: "request_config list"
  user :: "json option"
  loading :: bool
  refreshing :: bool

text \<open>utils/constants.js\<close>

definition AUTH_TOKEN :: string where "AUTH_TOKEN = ''insbu_auth_token''"
definition retryAttempts :: nat where "retryAttempts = 3"
definition retryDelay :: int where "retryDelay = 1000"
definition HTTP_OK :: int where "HTTP_OK = 200"
definition HTTP_UNAUTHORIZED :: int where "HTTP_UNAUTHORIZED = 401"
definition HTTP_UNPROCESSABLE_ENTITY :: int where "HTTP_UNPROCESSABLE_ENTITY = 422"
definition USER_ROLES :: "string list" where "USER_ROLES = [''admin'', ''editor'', ''user'']"

text \<open>A template literal \<^verbatim>\<open>`${v}`\<close>: a string as it is, anything else through ToString.\<close>

definition template :: "js_builtins \<Rightarrow> json \<Rightarrow> string" where
  "template b v = (case v of JStr s \<Rightarrow> s | _ \<Rightarrow> ToString b v)"

text \<open>
  What the network does with one request: a response with a status and a body, or no
  response at all, with the code and message axios gives the error
  (\<^verbatim>\<open>ECONNABORTED\<close> for a timeout).
\<close>

datatype transport_result = Responded int json | NoResponse string string

definition axios_error :: "js_builtins \<Rightarrow> request_config \<Rightarrow> transport_result \<Rightarrow> js_error" where
  "axios_error b cfg tr =
     (case tr of
        Responded s d \<Rightarrow>
          \<lparr> e_response = Some \<lparr> status = s, data = d \<rparr>, e_request = True, e_config = Some cfg,
            e_code = None,
            e_message = Some (JStr (''Request failed with status code '' @ ToString b (JNum s))),
            e_status = None, e_type = None, e_name = Some ''AxiosError'' \<rparr>
      | NoResponse c m \<Rightarrow>
          \<lparr> e_response = None, e_request = True, e_config = Some cfg, e_code = Some c,
            e_message = Some (JStr m), e_status = None, e_type = None,
            e_name = Some ''AxiosError'' \<rparr>)"

text \<open>A TypeError thrown by the runtime (property access on null or undefined).\<close>

definition type_error :: js_error where
  "type_error =
     \<lparr> e_response = None, e_request = False, e_config = None, e_code = None,
       e_message = None, e_status = None, e_type = None, e_name = Some ''TypeError'' \<rparr>"

section \<open>handleApiError (utils/helpers.js)\<close>

definition processed_error :: "int \<Rightarrow> json option \<Rightarrow> string \<Rightarrow> js_error" where
  "processed_error st msg ty =
     \<lparr> e_response = None, e_request = False, e_config = None, e_code = None,
       e_message = msg, e_status = Some st, e_type = Some ty, e_name = None \<rparr>"

definition handleApiError :: "js_error \<Rightarrow> js_error" where
  "handleApiError e =
     (case e_response e of
        Some r \<Rightarrow>
          processed_error (status r)
            (case get_field (data r) ''message'' of
               Some m \<Rightarrow> if truthy m then Some m else e_message e
             | None \<Rightarrow> e_message e)
            ''api_error''
      | None \<Rightarrow>
          if e_request e
          then processed_error 0 (Some (JStr ''Network error. Please check your connection.''))
                 ''network_error''
          else processed_error 0
                 (case e_message e of
                    Some m \<Rightarrow> if truthy m then Some m else Some (JStr ''An unexpected error occurred'')
                  | None \<Rightarrow> Some (JStr ''An unexpected error occurred''))
                 ''unknown_error'')"

section \<open>The axios instance and its interceptors (services/api.js)\<close>

text \<open>
  The request interceptor: the token read through the storage wrapper, and the
  Authorization header set when the token is truthy. (The start time it records and the
  console output serve measurement only and are not modelled.)
\<close>

definition request_interceptor :: "js_builtins \<Rightarrow> request_config \<Rightarrow> client_state \<Rightarrow> request_config" where
  "request_interceptor b cfg st =
     (let token = storage_get b AUTH_TOKEN (localStorage st)
      in if truthy token
         then cfg\<lparr>headers_Authorization := Some (''Bearer '' @ template b token)\<rparr>
         else cfg)"

text \<open>
  The rejection handler of the response interceptor. On a 422 it reads
  \<^verbatim>\<open>data.errors\<close> (a TypeError when the body is \<^verbatim>\<open>null\<close>); on a 401 whose config
  is not marked it marks the config, removes the token, deletes the default header and
  sends the browser to the login page. Whatever the status, it rejects with
  \<^verbatim>\<open>handleApiError(error)\<close>. The result is the rejection, the config as the handler
  leaves it, and the state.
\<close>

definition api_response_error ::
  "js_error \<Rightarrow> client_state \<Rightarrow> js_error \<times> request_config option \<times> client_state" where
  "api_response_error e st =
     (case e_response e of
        None \<Rightarrow> (handleApiError e, e_config e, st)
      | Some r \<Rightarrow>
          if status r = HTTP_UNPROCESSABLE_ENTITY \<and> data r = JNull
          then (type_error, e_config e, st)
          else if status r = HTTP_UNAUTHORIZED
          then (case e_config e of
                  None \<Rightarrow> (type_error, None, st)
                | Some cfg \<Rightarrow>
                    if \<not> retry_mark cfg
                    then (handleApiError e, Some (cfg\<lparr>retry_mark := True\<rparr>),
                          st\<lparr>localStorage := snd (storage_remove AUTH_TOKEN (localStorage st)),
                             defaults_Authorization := None,
                             location_href := Some ''/login''\<rparr>)
                    else (handleApiError e, Some cfg, st))
          else (handleApiError e, e_config e, st))"

text \<open>
  The axios instance merges its default headers into the config of every request:
  a config that sets no Authorization header gets the one of
  \<^verbatim>\<open>api.defaults.headers.common\<close>, when there is one.
\<close>

definition axios_defaults :: "client_state \<Rightarrow> request_config \<Rightarrow> request_config" where
  "axios_defaults st cfg =
     (case headers_Authorization cfg of
        Some h \<Rightarrow> cfg
      | None \<Rightarrow> cfg\<lparr>headers_Authorization := defaults_Authorization st\<rparr>)"

text \<open>
  The request as it goes on the wire: the defaults merged, then the request
  interceptor. (Whether axios merges the default headers before the interceptors run
  or after them depends on its version; the request on the wire is the same, lemma
  \<open>wire_request_merge_last\<close>.)
\<close>

definition wire_request :: "js_builtins \<Rightarrow> request_config \<Rightarrow> client_state \<Rightarrow> request_config" where
  "wire_request b cfg st = request_interceptor b (axios_defaults st cfg) st"

text \<open>
  One call \<^verbatim>\<open>api(config)\<close> of the axios instance: the defaults and the request
  interceptor, the request on the wire, axios's own settling (a status from 200 to 299
  resolves, anything else rejects with an axios error), and the response interceptor.
  The outcome of the network is an argument. (The \<^verbatim>\<open>code\<close> axios gives the error of
  a response depends on its version; it is \<open>None\<close> here, and nothing reads it.)
\<close>

definition api_call ::
  "js_builtins \<Rightarrow> transport_result \<Rightarrow> request_config \<Rightarrow> client_state
     \<Rightarrow> (js_error + http_response) \<times> client_state" where
  "api_call b tr cfg st =
     (let cfg1 = wire_request b cfg st;
          st1 = st\<lparr>sent := sent st @ [cfg1]\<rparr>
      in case tr of
           Responded s d \<Rightarrow>
             if 200 \<le> s \<and> s < 300 then (Inr \<lparr> status = s, data = d \<rparr>, st1)
             else (case api_response_error (axios_error b cfg1 tr) st1 of
                     (e, c, st2) \<Rightarrow> (Inl e, st2))
         | NoResponse c m \<Rightarrow>
             (case api_response_error (axios_error b cfg1 tr) st1 of
                (e, c, st2) \<Rightarrow> (Inl e, st2)))"

section \<open>The 401 interceptor of the AuthProvider (contexts/AuthContext.jsx)\<close>

text \<open>
  The rejection handler the AuthProvider adds to the same axios instance. The
  functions it closes over, \<^verbatim>\<open>refreshToken\<close> and \<^verbatim>\<open>api\<close>, are arguments. The
  result is the outcome, the config as the handler leaves it, and the state.
\<close>

definition auth_response_error ::
  "js_builtins \<Rightarrow> (client_state \<Rightarrow> bool \<times> client_state)
     \<Rightarrow> (request_config \<Rightarrow> client_state \<Rightarrow> (js_error + http_response) \<times> client_state)
     \<Rightarrow> bool \<Rightarrow> js_error \<Rightarrow> client_state
     \<Rightarrow> (js_error + http_response) \<times> request_config option \<times> client_state" where
  "auth_response_error b refreshToken api isAuthenticated e st =
     (case e_response e of
        None \<Rightarrow> (Inl e, e_config e, st)
      | Some r \<Rightarrow>
          if status r = 401
          then (case e_config e of
                  None \<Rightarrow> (Inl type_error, None, st)
                | Some cfg \<Rightarrow>
                    if \<not> retry_mark cfg \<and> isAuthenticated
                    then (let cfg1 = cfg\<lparr>retry_mark := True\<rparr>;
                              (refreshed, st1) = refreshToken st
                          in if refreshed
                             then (let token = storage_get b AUTH_TOKEN (localStorage st1);
                                       cfg2 = cfg1\<lparr>headers_Authorization :=
                                                Some (''Bearer '' @ template b token)\<rparr>;
                                       (res, st2) = api cfg2 st1
                                   in (res, Some cfg2, st2))
                             else (Inl (e\<lparr>e_config := Some cfg1\<rparr>), Some cfg1, st1))
                    else (Inl e, Some cfg, st))
          else (Inl e, e_config e, st))"

text \<open>
  The response interceptors run in the order in which they were added: the one of
  services/api.js, added when the module is loaded, then the one of the AuthProvider,
  added when the provider mounts. A rejection of the first is the error the second
  receives.
\<close>

definition response_error_chain ::
  "js_builtins \<Rightarrow> (client_state \<Rightarrow> bool \<times> client_state)
     \<Rightarrow> (request_config \<Rightarrow> client_state \<Rightarrow> (js_error + http_response) \<times> client_state)
     \<Rightarrow> bool \<Rightarrow> js_error \<Rightarrow> client_state
     \<Rightarrow> (js_error + http_response) \<times> request_config option \<times> client_state" where
  "response_error_chain b refreshToken api isAuthenticated e st =
     (case api_response_error e st of
        (e1, c1, st1) \<Rightarrow>
          (case auth_response_error b refreshToken api isAuthenticated e1 st1 of
             (res, c2, st2) \<Rightarrow> (res, (if e_config e1 = None then c1 else c2), st2)))"

text \<open>
  One call \<^verbatim>\<open>api(config)\<close> while the AuthProvider is mounted: as \<open>api_call\<close>, with
  both rejection handlers.
\<close>

definition api_call_auth ::
  "js_builtins \<Rightarrow> (client_state \<Rightarrow> bool \<times> client_state)
     \<Rightarrow> (request_config \<Rightarrow> client_state \<Rightarrow> (js_error + http_response) \<times> client_state)
     \<Rightarrow> bool \<Rightarrow> transport_result \<Rightarrow> request_config \<Rightarrow> client_state
     \<Rightarrow> (js_error + http_response) \<times> client_state" where
  "api_call_auth b refreshToken api isAuth tr cfg st =
     (let cfg1 = wire_request b cfg st;
          st1 = st\<lparr>sent := sent st @ [cfg1]\<rparr>
      in case tr of
           Responded s d \<Rightarrow>
             if 200 \<le> s \<and> s < 300 then (Inr \<lparr> status = s, data = d \<rparr>, st1)
             else (case response_error_chain b refreshToken api isAuth (axios_error b cfg1 tr) st1 of
                     (res, c, st2) \<Rightarrow> (res, st2))
         | NoResponse c m \<Rightarrow>
             (case response_error_chain b refreshToken api isAuth (axios_error b cfg1 tr) st1 of
                (res, c, st2) \<Rightarrow> (res, st2)))"

section \<open>The retry mechanism (services/api.js)\<close>

text \<open>
  \<^verbatim>\<open>shouldRetry\<close> as \<^verbatim>\<open>requestWithRetry\<close> computes it from the error it catches, and
  the delay of the exponential backoff.
\<close>

definition shouldRetry :: "js_error \<Rightarrow> nat \<Rightarrow> bool" where
  "shouldRetry e retryCount \<longleftrightarrow>
     retryCount < retryAttempts
     \<and> (case e_response e of None \<Rightarrow> True | Some r \<Rightarrow> status r \<ge> 500)
     \<and> e_code e \<noteq> Some ''ECONNABORTED''"

definition backoff_delay :: "nat \<Rightarrow> int" where
  "backoff_delay retryCount = retryDelay * 2 ^ retryCount"

text \<open>
  \<^verbatim>\<open>requestWithRetry(config, retryCount)\<close>. The argument \<open>api\<close> is the call
  \<^verbatim>\<open>api(config)\<close> made at a given retry count (the network may answer each attempt
  differently). The result is the outcome, the delays waited (oldest first) and the
  state.
\<close>

function requestWithRetry ::
  "(nat \<Rightarrow> 's \<Rightarrow> (js_error + 'r) \<times> 's) \<Rightarrow> nat \<Rightarrow> 's \<Rightarrow> (js_error + 'r) \<times> int list \<times> 's" where
  "requestWithRetry api retryCount st =
     (case api retryCount st of
        (Inr response, st1) \<Rightarrow> (Inr response, [], st1)
      | (Inl e, st1) \<Rightarrow>
          if shouldRetry e retryCount
          then (case requestWithRetry api (retryCount + 1) st1 of
                  (res, delays, st2) \<Rightarrow> (res, backoff_delay retryCount # delays, st2))
          else (Inl e, [], st1))"
  by pat_completeness auto
termination
  by (relation "measure (\<lambda>(api, retryCount, st). retryAttempts - retryCount)")
     (auto simp: shouldRetry_def)

declare requestWithRetry.simps [simp del]

text \<open>
  The attempts one after the other: \<open>attempt api k st i\<close> is the outcome of the call
  made at retry count \<open>k + i\<close> when the first call was made at retry count \<open>k\<close> in
  the state \<open>st\<close> and each call starts in the state the one before it left.
\<close>

primrec attempt :: "(nat \<Rightarrow> 's \<Rightarrow> (js_error + 'r) \<times> 's) \<Rightarrow> nat \<Rightarrow> 's \<Rightarrow> nat \<Rightarrow> (js_error + 'r) \<times> 's" where
  "attempt api k st 0 = api k st"
| "attempt api k st (Suc i) = api (k + Suc i) (snd (attempt api k st i))"

text \<open>
  The errors after which the specification lets a request be retried: no response, or a
  response with a status of 500 or more, and a code that is not \<^verbatim>\<open>ECONNABORTED\<close>.
\<close>

definition retryable :: "js_error \<Rightarrow> bool" where
  "retryable e \<longleftrightarrow>
     (case e_response e of None \<Rightarrow> True | Some r \<Rightarrow> 500 \<le> status r)
     \<and> e_code e \<noteq> Some ''ECONNABORTED''"

text \<open>
  \<^verbatim>\<open>api.postOptimistic\<close>: the optimistic update and the rollback are callbacks of the
  caller; the request goes through \<^verbatim>\<open>requestWithRetry\<close> with method POST.
\<close>

definition post_config :: "string \<Rightarrow> json \<Rightarrow> request_config" where
  "post_config u d =
     \<lparr> req_method = ''POST'', url = u, req_data = Some d, params = None,
       headers_Authorization = None, retry_mark = False \<rparr>"

definition postOptimistic ::
  "js_builtins \<Rightarrow> (nat \<Rightarrow> transport_result) \<Rightarrow> string \<Rightarrow> json \<Rightarrow> client_state
     \<Rightarrow> (js_error + http_response) \<times> int list \<times> client_state" where
  "postOptimistic b net u d st =
     requestWithRetry (\<lambda>retryCount. api_call b (net retryCount) (post_config u d)) 0 st"

section \<open>The cached GET (services/api.js)\<close>

text \<open>
  The options of \<^verbatim>\<open>getWithCache\<close> that it reads itself. \<^verbatim>\<open>config.useCache !== false\<close>
  holds for an absent option.
\<close>

record cache_config =
  cfg_params :: "json option"
  cacheDuration :: "int option"
  useCache :: "bool option"

definition cacheKey :: "js_builtins \<Rightarrow> string \<Rightarrow> cache_config \<Rightarrow> string" where
  "cacheKey b u config =
     ''api_cache_'' @ u @ ''_'' @
       JSON_stringify b
         (case cfg_params config of
            Some p \<Rightarrow> if truthy p then p else JObj []
          | None \<Rightarrow> JObj [])"

definition cache_duration :: "cache_config \<Rightarrow> int" where
  "cache_duration config =
     (case cacheDuration config of
        Some d \<Rightarrow> if d \<noteq> 0 then d else 5 * 60 * 1000
      | None \<Rightarrow> 5 * 60 * 1000)"

text \<open>
  \<^verbatim>\<open>Date.now() - cachedData.timestamp\<close>: NaN (\<open>None\<close>) when the property is missing
  or does not convert to a number.
\<close>

definition entry_age :: "js_builtins \<Rightarrow> int \<Rightarrow> json \<Rightarrow> int option" where
  "entry_age b now cachedData =
     (case get_field cachedData ''timestamp'' of
        None \<Rightarrow> None
      | Some (JNum t) \<Rightarrow> Some (now - t)
      | Some v \<Rightarrow> (case ToNumber b v of None \<Rightarrow> None | Some t \<Rightarrow> Some (now - t)))"

definition cache_hit :: "js_builtins \<Rightarrow> int \<Rightarrow> cache_config \<Rightarrow> json \<Rightarrow> bool" where
  "cache_hit b now config cachedData \<longleftrightarrow>
     truthy cachedData
     \<and> (case entry_age b now cachedData of None \<Rightarrow> False | Some a \<Rightarrow> a < cache_duration config)"

text \<open>The entry \<^verbatim>\<open>{ data, timestamp }\<close> that \<^verbatim>\<open>getWithCache\<close> stores.\<close>

definition cache_entry :: "json \<Rightarrow> int \<Rightarrow> json" where
  "cache_entry d t = JObj [(''data'', d), (''timestamp'', JNum t)]"

text \<open>What \<^verbatim>\<open>getWithCache\<close> resolves with.\<close>

record cache_result =
  res_data :: "json option"
  res_status :: "int option"
  fromCache :: bool

definition get_config :: "string \<Rightarrow> cache_config \<Rightarrow> request_config" where
  "get_config u config =
     \<lparr> req_method = ''GET'', url = u, req_data = None, params = cfg_params config,
       headers_Authorization = None, retry_mark = False \<rparr>"

text \<open>
  \<^verbatim>\<open>api.getWithCache(url, config)\<close>; \<open>now\<close> is \<^verbatim>\<open>Date.now()\<close> at the cache check,
  \<open>now'\<close> at the time the response is stored. The request is
  \<^verbatim>\<open>{ method: 'GET', url, ...config }\<close> for a config that sets neither method nor url.
\<close>

definition getWithCache ::
  "js_builtins \<Rightarrow> int \<Rightarrow> int \<Rightarrow> (nat \<Rightarrow> transport_result) \<Rightarrow> string \<Rightarrow> cache_config
     \<Rightarrow> client_state \<Rightarrow> (js_error + cache_result) \<times> client_state" where
  "getWithCache b now now' net u config st =
     (let key = cacheKey b u config;
          cachedData = storage_get b key (localStorage st)
      in if useCache config \<noteq> Some False \<and> cache_hit b now config cachedData
         then (Inr \<lparr> res_data = get_field cachedData ''data'', res_status = None,
                     fromCache = True \<rparr>, st)
         else (case requestWithRetry
                      (\<lambda>retryCount. api_call b (net retryCount) (get_config u config)) 0 st of
                 (Inl e, delays, st1) \<Rightarrow> (Inl e, st1)
               | (Inr response, delays, st1) \<Rightarrow>
                   (Inr \<lparr> res_data = Some (data response), res_status = Some (status response),
                          fromCache = False \<rparr>,
                    if useCache config \<noteq> Some False \<and> status response = HTTP_OK
                    then st1\<lparr>localStorage :=
                           snd (storage_set b key (cache_entry (data response) now')
                                  (localStorage st1))\<rparr>
                    else st1)))"

section \<open>Pagination state of usePaginatedApi (hooks/useApi.js)\<close>

record pagination_state =
  page :: int
  totalPages :: int
  totalItems :: int
  searchTerm :: string
  filters :: "string \<rightharpoonup> json"
  sortBy :: "string option"
  sortOrder :: string

text \<open>
  The initial values of the \<^verbatim>\<open>useState\<close> calls; \<open>initialPage\<close> is an option of the
  hook.
\<close>

definition usePaginatedApi_init :: "int \<Rightarrow> pagination_state" where
  "usePaginatedApi_init initialPage =
     \<lparr> page = initialPage, totalPages = 0, totalItems = 0, searchTerm = [],
       filters = Map.empty, sortBy = None, sortOrder = ''asc'' \<rparr>"

text \<open>
  The three navigation callbacks are made by a render and close over the \<^verbatim>\<open>page\<close> and
  \<^verbatim>\<open>totalPages\<close> of that render, the first argument: the guard tests these. What a
  call changes is the state as it is pending at the time of the call, the last
  argument: \<^verbatim>\<open>setPage(prev => prev + 1)\<close> and \<^verbatim>\<open>setPage(prev => prev - 1)\<close> are
  applied to the pending page, which is not the page of the render when a state change
  has followed that render.
\<close>

definition nextPage :: "pagination_state \<Rightarrow> pagination_state \<Rightarrow> pagination_state" where
  "nextPage r st = (if page r < totalPages r then st\<lparr>page := page st + 1\<rparr> else st)"

definition prevPage :: "pagination_state \<Rightarrow> pagination_state \<Rightarrow> pagination_state" where
  "prevPage r st = (if page r > 1 then st\<lparr>page := page st - 1\<rparr> else st)"

definition goToPage :: "pagination_state \<Rightarrow> int \<Rightarrow> pagination_state \<Rightarrow> pagination_state" where
  "goToPage r pageNumber st =
     (if pageNumber \<ge> 1 \<and> pageNumber \<le> totalPages r then st\<lparr>page := pageNumber\<rparr> else st)"

text \<open>The state setter \<^verbatim>\<open>setPage\<close>, which the hook returns next to the three above.\<close>

definition setPage :: "int \<Rightarrow> pagination_state \<Rightarrow> pagination_state" where
  "setPage n st = st\<lparr>page := n\<rparr>"

text \<open>
  The function that \<^verbatim>\<open>debounce\<close> wraps, run when the debounce delay has passed
  (the hook returns the debounced function as \<^verbatim>\<open>setSearchTerm\<close>).
\<close>

definition debouncedSearch :: "string \<Rightarrow> pagination_state \<Rightarrow> pagination_state" where
  "debouncedSearch term st = st\<lparr>searchTerm := term, page := 1\<rparr>"

definition updateFilters :: "(string \<rightharpoonup> json) \<Rightarrow> pagination_state \<Rightarrow> pagination_state" where
  "updateFilters newFilters st = st\<lparr>filters := filters st ++ newFilters, page := 1\<rparr>"

text \<open>\<^verbatim>\<open>updateSort(field, order = 'asc')\<close>: an absent order is \<^verbatim>\<open>'asc'\<close>.\<close>

definition updateSort :: "string option \<Rightarrow> string option \<Rightarrow> pagination_state \<Rightarrow> pagination_state" where
  "updateSort field ord st =
     st\<lparr>sortBy := field, sortOrder := (case ord of None \<Rightarrow> ''asc'' | Some v \<Rightarrow> v), page := 1\<rparr>"

definition clearFilters :: "pagination_state \<Rightarrow> pagination_state" where
  "clearFilters st =
     st\<lparr>filters := Map.empty, searchTerm := [], sortBy := None, sortOrder := ''asc'', page := 1\<rparr>"

text \<open>
  The effect that reads the pagination data of a response: with \<^verbatim>\<open>response.data\<close>
  truthy, \<^verbatim>\<open>last_page || 0\<close> and \<^verbatim>\<open>total || 0\<close> are stored.
\<close>

record page_response =
  has_data :: bool
  last_page :: "int option"
  total :: "int option"

definition response_effect :: "page_response \<Rightarrow> pagination_state \<Rightarrow> pagination_state" where
  "response_effect r st =
     (if has_data r
      then st\<lparr>totalPages := (case last_page r of None \<Rightarrow> 0 | Some n \<Rightarrow> n),
              totalItems := (case total r of None \<Rightarrow> 0 | Some n \<Rightarrow> n)\<rparr>
      else st)"

definition hasNextPage :: "pagination_state \<Rightarrow> bool" where
  "hasNextPage st \<longleftrightarrow> page st < totalPages st"

definition hasPrevPage :: "pagination_state \<Rightarrow> bool" where
  "hasPrevPage st \<longleftrightarrow> page st > 1"

text \<open>
  The hook between two renders: the state of the last render, which the callbacks and
  the values the hook returned close over, and the pending state, which the setters
  have changed since and which the next render takes over.
\<close>

record hook_state =
  rendered :: pagination_state
  pending :: pagination_state

definition usePaginatedApi_mount :: "int \<Rightarrow> hook_state" where
  "usePaginatedApi_mount initialPage =
     \<lparr> rendered = usePaginatedApi_init initialPage, pending = usePaginatedApi_init initialPage \<rparr>"

text \<open>
  Everything a component can do with what the hook returned at the last render, what a
  response does, and a render.
\<close>

datatype pagination_event =
    NextPage
  | PrevPage
  | GoToPage int
  | SetPage int
  | Search string
  | UpdateFilters "string \<rightharpoonup> json"
  | UpdateSort "string option" "string option"
  | ClearFilters
  | Response page_response
  | Render

fun pagination_step :: "hook_state \<Rightarrow> pagination_event \<Rightarrow> hook_state" where
  "pagination_step h NextPage = h\<lparr>pending := nextPage (rendered h) (pending h)\<rparr>"
| "pagination_step h PrevPage = h\<lparr>pending := prevPage (rendered h) (pending h)\<rparr>"
| "pagination_step h (GoToPage n) = h\<lparr>pending := goToPage (rendered h) n (pending h)\<rparr>"
| "pagination_step h (SetPage n) = h\<lparr>pending := setPage n (pending h)\<rparr>"
| "pagination_step h (Search term) = h\<lparr>pending := debouncedSearch term (pending h)\<rparr>"
| "pagination_step h (UpdateFilters newFilters) = h\<lparr>pending := updateFilters newFilters (pending h)\<rparr>"
| "pagination_step h (UpdateSort field ord) = h\<lparr>pending := updateSort field ord (pending h)\<rparr>"
| "pagination_step h ClearFilters = h\<lparr>pending := clearFilters (pending h)\<rparr>"
| "pagination_step h (Response r) = h\<lparr>pending := response_effect r (pending h)\<rparr>"
| "pagination_step h Render = h\<lparr>rendered := pending h\<rparr>"

text \<open>
  A run in which every call of \<^verbatim>\<open>nextPage\<close>, \<^verbatim>\<open>prevPage\<close> and \<^verbatim>\<open>goToPage\<close> is the
  first state change after a render, and \<^verbatim>\<open>setPage\<close> is not called with a number
  below 1. The flag says that nothing has changed the state since the last render.
\<close>

fun fresh_calls :: "bool \<Rightarrow> pagination_event list \<Rightarrow> bool" where
  "fresh_calls f [] = True"
| "fresh_calls f (Render # es) = fresh_calls True es"
| "fresh_calls f (NextPage # es) = (f \<and> fresh_calls False es)"
| "fresh_calls f (PrevPage # es) = (f \<and> fresh_calls False es)"
| "fresh_calls f (GoToPage n # es) = (f \<and> fresh_calls False es)"
| "fresh_calls f (SetPage n # es) = (1 \<le> n \<and> fresh_calls False es)"
| "fresh_calls f (e # es) = fresh_calls False es"

section \<open>Validation (utils/helpers.js) and adminService.createUser\<close>

text \<open>
  The character classes of \<^verbatim>\<open>/^[A-Z0-9._%+-]+@[A-Z0-9.-]+\.[A-Z]{2,}$/i\<close>. With the
  flag \<^verbatim>\<open>i\<close> the class \<^verbatim>\<open>A-Z\<close> holds the ASCII letters of both cases.
\<close>

definition is_alpha :: "char \<Rightarrow> bool" where
  "is_alpha c \<longleftrightarrow>
     (65 \<le> (of_char c :: nat) \<and> (of_char c :: nat) \<le> 90)
     \<or> (97 \<le> (of_char c :: nat) \<and> (of_char c :: nat) \<le> 122)"

definition is_digit :: "char \<Rightarrow> bool" where
  "is_digit c \<longleftrightarrow> 48 \<le> (of_char c :: nat) \<and> (of_char c :: nat) \<le> 57"

definition local_char :: "char \<Rightarrow> bool" where
  "local_char c \<longleftrightarrow> is_alpha c \<or> is_digit c \<or> c \<in> set ''._%+-''"

definition domain_char :: "char \<Rightarrow> bool" where
  "domain_char c \<longleftrightarrow> is_alpha c \<or> is_digit c \<or> c \<in> set ''.-''"

text \<open>The strings the regular expression matches from start to end.\<close>

definition emailRegex :: "string \<Rightarrow> bool" where
  "emailRegex email \<longleftrightarrow>
     (\<exists>l d t. email = l @ ''@'' @ d @ ''.'' @ t
        \<and> l \<noteq> [] \<and> list_all local_char l
        \<and> d \<noteq> [] \<and> list_all domain_char d
        \<and> 2 \<le> length t \<and> list_all is_alpha t)"

text \<open>
  \<^verbatim>\<open>emailRegex.test(email)\<close>, computed: no class holds \<^verbatim>\<open>@\<close>, so the local part
  ends at the first \<^verbatim>\<open>@\<close>; the last class holds no dot, so the last part starts after
  the last dot.
\<close>

definition isValidEmail :: "string \<Rightarrow> bool" where
  "isValidEmail email =
     (let l = takeWhile (\<lambda>c. c \<noteq> CHR ''@'') email;
          rest = drop (length l + 1) email;
          t = rev (takeWhile (\<lambda>c. c \<noteq> CHR ''.'') (rev rest));
          d = take (length rest - length t - 1) rest
      in length l < length email \<and> l \<noteq> [] \<and> list_all local_char l
         \<and> length t < length rest \<and> d \<noteq> [] \<and> list_all domain_char d
         \<and> 2 \<le> length t \<and> list_all is_alpha t)"

text \<open>
  The fields of \<^verbatim>\<open>userData\<close>, strings of a form; \<open>None\<close> is a field that is
  not there.
\<close>

record user_data =
  ud_name :: "string option"
  ud_email :: "string option"
  ud_password :: "string option"
  ud_role :: "string option"
  ud_status :: "string option"

text \<open>The destructuring defaults: \<^verbatim>\<open>role = USER_ROLES.USER\<close>, \<^verbatim>\<open>status = 'active'\<close>.\<close>

definition role_of :: "user_data \<Rightarrow> string" where
  "role_of ud = (case ud_role ud of None \<Rightarrow> ''user'' | Some r \<Rightarrow> r)"

definition status_of :: "user_data \<Rightarrow> string" where
  "status_of ud = (case ud_status ud of None \<Rightarrow> ''active'' | Some s \<Rightarrow> s)"

text \<open>
  The four checks of createUser. \<^verbatim>\<open>!name\<close> holds for a missing and for an empty
  string; the pattern is tried on the email as given.
\<close>

definition name_rejected :: "js_builtins \<Rightarrow> user_data \<Rightarrow> bool" where
  "name_rejected b ud \<longleftrightarrow>
     (case ud_name ud of None \<Rightarrow> True | Some n \<Rightarrow> n = [] \<or> length (trim b n) < 2)"

definition email_missing :: "user_data \<Rightarrow> bool" where
  "email_missing ud \<longleftrightarrow> (case ud_email ud of None \<Rightarrow> True | Some e \<Rightarrow> e = [])"

definition email_malformed :: "user_data \<Rightarrow> bool" where
  "email_malformed ud \<longleftrightarrow> (case ud_email ud of None \<Rightarrow> False | Some e \<Rightarrow> \<not> isValidEmail e)"

definition password_rejected :: "user_data \<Rightarrow> bool" where
  "password_rejected ud \<longleftrightarrow>
     (case ud_password ud of None \<Rightarrow> True | Some p \<Rightarrow> p = [] \<or> length p < 8)"

definition role_rejected :: "user_data \<Rightarrow> bool" where
  "role_rejected ud \<longleftrightarrow> role_of ud \<notin> set USER_ROLES"

text \<open>The \<^verbatim>\<open>errors\<close> object of createUser, its properties in the order they are set.\<close>

definition createUser_errors :: "js_builtins \<Rightarrow> user_data \<Rightarrow> (string \<times> json) list" where
  "createUser_errors b ud =
     (if name_rejected b ud
      then [(''name'', JArr [JStr ''Name must be at least 2 characters long''])] else [])
     @ (if email_missing ud
        then [(''email'', JArr [JStr ''Email is required''])]
        else if email_malformed ud
        then [(''email'', JArr [JStr ''Please enter a valid email address''])] else [])
     @ (if password_rejected ud
        then [(''password'', JArr [JStr ''Password must be at least 8 characters long''])] else [])
     @ (if role_rejected ud
        then [(''role'', JArr [JStr ''Invalid role selected''])] else [])"

text \<open>The object createUser throws: \<^verbatim>\<open>{ response: { status: 422, data: { errors } } }\<close>.\<close>

definition validation_error :: "(string \<times> json) list \<Rightarrow> js_error" where
  "validation_error errors =
     \<lparr> e_response = Some \<lparr> status = 422, data = JObj [(''errors'', JObj errors)] \<rparr>,
       e_request = False, e_config = None, e_code = None, e_message = None,
       e_status = None, e_type = None, e_name = None \<rparr>"

text \<open>\<^verbatim>\<open>api.post(url, data)\<close> of axios: a call of the instance with method \<^verbatim>\<open>post\<close>.\<close>

definition axios_post :: "string \<Rightarrow> json option \<Rightarrow> request_config" where
  "axios_post u d =
     \<lparr> req_method = ''post'', url = u, req_data = d, params = None,
       headers_Authorization = None, retry_mark = False \<rparr>"

text \<open>
  \<^verbatim>\<open>api.clearCache(pattern)\<close>: every key of local storage that starts with
  \<^verbatim>\<open>api_cache_\<close> and includes the pattern is removed; without a pattern every key that
  starts with \<^verbatim>\<open>api_cache_\<close>.
\<close>

definition clearCache :: "string option \<Rightarrow> web_storage \<Rightarrow> web_storage" where
  "clearCache pattern ls =
     ls\<lparr>items := (\<lambda>key.
          if prefix ''api_cache_'' key
             \<and> (case pattern of None \<Rightarrow> True | Some p \<Rightarrow> p = [] \<or> sublist p key)
          then None else items ls key)\<rparr>"

record service_result =
  sr_data :: json
  sr_message :: string

definition createUser_payload :: "js_builtins \<Rightarrow> string \<Rightarrow> string \<Rightarrow> string \<Rightarrow> user_data \<Rightarrow> json" where
  "createUser_payload b name email password ud =
     JObj [(''name'', JStr (trim b name)),
           (''email'', JStr (trim b (toLowerCase b email))),
           (''password'', JStr password),
           (''role'', JStr (role_of ud)),
           (''status'', JStr (status_of ud))]"

text \<open>
  \<^verbatim>\<open>adminService.createUser(userData)\<close>. Past the validation the three fields are
  there; \<^verbatim>\<open>name.trim()\<close> on a missing name would be a TypeError.
\<close>

definition createUser ::
  "js_builtins \<Rightarrow> transport_result \<Rightarrow> user_data \<Rightarrow> client_state
     \<Rightarrow> (js_error + service_result) \<times> client_state" where
  "createUser b tr ud st =
     (let errors = createUser_errors b ud
      in if length errors > 0 then (Inl (validation_error errors), st)
         else (case (ud_name ud, ud_email ud, ud_password ud) of
                 (Some name, Some email, Some password) \<Rightarrow>
                   (case api_call b tr
                           (axios_post ''/admin/users''
                              (Some (createUser_payload b name email password ud))) st of
                      (Inl e, st1) \<Rightarrow> (Inl e, st1)
                    | (Inr response, st1) \<Rightarrow>
                        (Inr \<lparr> sr_data = data response,
                               sr_message = ''User created successfully'' \<rparr>,
                         st1\<lparr>localStorage := clearCache (Some ''admin/users'') (localStorage st1)\<rparr>))
               | _ \<Rightarrow> (Inl type_error, st)))"

text \<open>
  When createUser refuses the data, in the words of the specification: the trimmed name
  is shorter than 2 characters, the email is missing or fails the email pattern, the
  password is missing or shorter than 8 characters, or the role is not one of admin,
  editor, user. A missing name has no characters, a missing role is the default role.
\<close>

definition createUser_rejects :: "js_builtins \<Rightarrow> user_data \<Rightarrow> bool" where
  "createUser_rejects b ud \<longleftrightarrow>
     (case ud_name ud of None \<Rightarrow> True | Some n \<Rightarrow> length (trim b n) < 2)
     \<or> (case ud_email ud of None \<Rightarrow> True | Some e \<Rightarrow> \<not> emailRegex e)
     \<or> (case ud_password ud of None \<Rightarrow> True | Some p \<Rightarrow> length p < 8)
     \<or> role_of ud \<notin> {''admin'', ''editor'', ''user''}"

section \<open>Logout (services/authService.js, contexts/AuthContext.jsx)\<close>

text \<open>\<^verbatim>\<open>isAuthenticated = !!user\<close>; the user \<^verbatim>\<open>null\<close> is \<open>None\<close>.\<close>

definition isAuthenticated :: "client_state \<Rightarrow> bool" where
  "isAuthenticated st \<longleftrightarrow> (case user st of None \<Rightarrow> False | Some u \<Rightarrow> truthy u)"

text \<open>
  \<^verbatim>\<open>authService.logout\<close> posts to \<^verbatim>\<open>/auth/logout\<close> and resolves whether the call
  succeeds or fails; what remains of it is its effect on the state.
\<close>

definition authService_logout :: "js_builtins \<Rightarrow> transport_result \<Rightarrow> client_state \<Rightarrow> client_state" where
  "authService_logout b tr st = snd (api_call b tr (axios_post ''/auth/logout'' None) st)"

definition logout :: "js_builtins \<Rightarrow> transport_result \<Rightarrow> client_state \<Rightarrow> client_state" where
  "logout b tr st =
     (let token = storage_get b AUTH_TOKEN (localStorage st);
          st1 = (if truthy token then authService_logout b tr st else st)
      in st1\<lparr>localStorage := snd (storage_remove AUTH_TOKEN (localStorage st1)),
             defaults_Authorization := None,
             user := None,
             loading := False\<rparr>)"

section \<open>Token refresh (services/authService.js, contexts/AuthContext.jsx)\<close>

text \<open>
  \<^verbatim>\<open>authService.refreshToken\<close> posts to \<^verbatim>\<open>/auth/refresh\<close> without a body. It
  resolves with an object whose \<^verbatim>\<open>data\<close> is the body of the response, and rethrows
  the error of a call that failed. (With the AuthProvider mounted the call also passes
  the rejection handler of the provider, which changes nothing: lemma
  \<open>api_call_auth_eq\<close>.)
\<close>

definition authService_refreshToken ::
  "js_builtins \<Rightarrow> transport_result \<Rightarrow> client_state \<Rightarrow> (js_error + json) \<times> client_state" where
  "authService_refreshToken b tr st =
     (case api_call b tr (axios_post ''/auth/refresh'' None) st of
        (Inl e, st1) \<Rightarrow> (Inl e, st1)
      | (Inr response, st1) \<Rightarrow> (Inr (data response), st1))"

text \<open>
  \<^verbatim>\<open>storage.set(key, undefined)\<close>: \<^verbatim>\<open>JSON.stringify(undefined)\<close> is \<^verbatim>\<open>undefined\<close>,
  which \<^verbatim>\<open>setItem\<close> stores as the text \<^verbatim>\<open>undefined\<close>.
\<close>

definition storage_set_undefined :: "string \<Rightarrow> web_storage \<Rightarrow> bool \<times> web_storage" where
  "storage_set_undefined key ls =
     (case setItem ls key ''undefined'' of
        Inr ls' \<Rightarrow> (True, ls')
      | Inl e \<Rightarrow> (False, ls))"

text \<open>
  \<^verbatim>\<open>refreshToken\<close> of the AuthProvider. The callback is made by a render and closes
  over the \<^verbatim>\<open>refreshing\<close> of that render, the argument \<open>seen\<close>; the \<^verbatim>\<open>refreshing\<close> of
  the state is what \<^verbatim>\<open>setRefreshing\<close> has set since. The early return is outside the
  \<^verbatim>\<open>try\<close>. Inside it, destructuring a body that is \<^verbatim>\<open>null\<close> throws a TypeError; a
  body without \<^verbatim>\<open>token\<close> gives \<^verbatim>\<open>undefined\<close>, which is stored and put into the
  header as the text \<^verbatim>\<open>undefined\<close>. Every error ends in \<^verbatim>\<open>logout()\<close>, whose own
  request has the outcome \<open>tr_logout\<close>. The result of \<^verbatim>\<open>storage.set\<close> is not looked
  at.
\<close>

definition refreshToken ::
  "js_builtins \<Rightarrow> bool \<Rightarrow> transport_result \<Rightarrow> transport_result \<Rightarrow> client_state
     \<Rightarrow> bool \<times> client_state" where
  "refreshToken b seen tr tr_logout st =
     (if seen then (False, st)
      else (case authService_refreshToken b tr (st\<lparr>refreshing := True\<rparr>) of
              (Inl e, st1) \<Rightarrow> (False, (logout b tr_logout st1)\<lparr>refreshing := False\<rparr>)
            | (Inr body, st1) \<Rightarrow>
                if body = JNull
                then (False, (logout b tr_logout st1)\<lparr>refreshing := False\<rparr>)
                else (let token = get_field body ''token'';
                          userData = get_field body ''user'';
                          st2 = st1\<lparr>localStorage :=
                                     snd (case token of
                                            Some t \<Rightarrow> storage_set b AUTH_TOKEN t (localStorage st1)
                                          | None \<Rightarrow> storage_set_undefined AUTH_TOKEN
                                                      (localStorage st1)),
                                   defaults_Authorization :=
                                     Some (''Bearer '' @ (case token of
                                                            Some t \<Rightarrow> template b t
                                                          | None \<Rightarrow> ''undefined''))\<rparr>;
                          st3 = (case userData of
                                   Some u \<Rightarrow> if truthy u then st2\<lparr>user := Some u\<rparr> else st2
                                 | None \<Rightarrow> st2)
                      in (True, st3\<lparr>refreshing := False\<rparr>))))"

text \<open>
  The function the effect gives to \<^verbatim>\<open>setInterval\<close>: a refresh when a token is stored,
  with the \<^verbatim>\<open>refreshToken\<close> of the render whose effect set the timer up.
\<close>

definition interval_callback ::
  "js_builtins \<Rightarrow> bool \<Rightarrow> transport_result \<Rightarrow> transport_result \<Rightarrow> client_state \<Rightarrow> client_state" where
  "interval_callback b seen tr tr_logout st =
     (let token = storage_get b AUTH_TOKEN (localStorage st)
      in if truthy token then snd (refreshToken b seen tr tr_logout st) else st)"

text \<open>
  The AuthProvider between two renders: the client state, the \<^verbatim>\<open>isAuthenticated\<close> and
  \<^verbatim>\<open>refreshing\<close> of the last render, and the delay in milliseconds of the interval
  timer that the effect has running, \<open>None\<close> when it has none. The dependencies of the
  effect are \<^verbatim>\<open>isAuthenticated\<close> and \<^verbatim>\<open>refreshToken\<close>, and \<^verbatim>\<open>refreshToken\<close> is made
  anew exactly when \<^verbatim>\<open>refreshing\<close> has changed (\<^verbatim>\<open>logout\<close> is made once).
\<close>

record auth_provider =
  client :: client_state
  seen_authenticated :: bool
  seen_refreshing :: bool
  refreshInterval :: "int option"

text \<open>The body of the effect, and the cleanup it returns (\<^verbatim>\<open>clearInterval\<close>).\<close>

definition refresh_effect :: "auth_provider \<Rightarrow> auth_provider" where
  "refresh_effect p =
     (if \<not> seen_authenticated p then p
      else p\<lparr>refreshInterval := Some (15 * 60 * 1000)\<rparr>)"

definition effect_cleanup :: "auth_provider \<Rightarrow> auth_provider" where
  "effect_cleanup p = p\<lparr>refreshInterval := None\<rparr>"

text \<open>
  The first render, with the initial values of the \<^verbatim>\<open>useState\<close> calls, and its
  effect.
\<close>

definition AuthProvider_mount :: "client_state \<Rightarrow> auth_provider" where
  "AuthProvider_mount st =
     refresh_effect
       \<lparr> client = st\<lparr>user := None, loading := True, refreshing := False\<rparr>,
         seen_authenticated = False, seen_refreshing = False, refreshInterval = None \<rparr>"

text \<open>
  A render after state changes: when a dependency of the effect has changed, React
  runs the cleanup of the last effect and then the effect.
\<close>

definition render :: "auth_provider \<Rightarrow> auth_provider" where
  "render p =
     (let a = isAuthenticated (client p);
          r = refreshing (client p)
      in if a = seen_authenticated p \<and> r = seen_refreshing p then p
         else refresh_effect ((effect_cleanup p)\<lparr>seen_authenticated := a, seen_refreshing := r\<rparr>))"

definition unmount :: "auth_provider \<Rightarrow> auth_provider" where
  "unmount p = effect_cleanup p"

text \<open>The timer fires, when there is one.\<close>

definition interval_fires ::
  "js_builtins \<Rightarrow> transport_result \<Rightarrow> transport_result \<Rightarrow> auth_provider \<Rightarrow> auth_provider" where
  "interval_fires b tr tr_logout p =
     (case refreshInterval p of
        None \<Rightarrow> p
      | Some d \<Rightarrow> p\<lparr>client := interval_callback b (seen_refreshing p) tr tr_logout (client p)\<rparr>)"

text \<open>
  The effect is in step with the last render: a timer of 15 minutes when that render
  was authenticated, none otherwise.
\<close>

definition effect_synced :: "auth_provider \<Rightarrow> bool" where
  "effect_synced p \<longleftrightarrow>
     refreshInterval p = (if seen_authenticated p then Some (15 * 60 * 1000) else None)"

section \<open>Sample environment\<close>

text \<open>
  A small concrete runtime for evaluating the model: strings without a double quote are
  written between double quotes, \<^verbatim>\<open>null\<close> and the empty object as themselves,
  nothing else is serializable; integers print in decimal. A storage that accepts every
  write, and one that is full.
\<close>

definition sample_stringify :: "json \<Rightarrow> string" where
  "sample_stringify v =
     (case v of JStr s \<Rightarrow> [CHR 0x22] @ s @ [CHR 0x22] | JObj kvs \<Rightarrow> ''{}'' | _ \<Rightarrow> ''null'')"

definition sample_parse :: "string \<Rightarrow> json option" where
  "sample_parse t =
     (if t = ''null'' then Some JNull
      else if t = ''{}'' then Some (JObj [])
      else if 2 \<le> length t \<and> hd t = CHR 0x22 \<and> last t = CHR 0x22
           \<and> CHR 0x22 \<notin> set (butlast (tl t))
      then Some (JStr (butlast (tl t)))
      else None)"

fun sample_digits :: "nat \<Rightarrow> string" where
  "sample_digits n =
     (if n < 10 then [''0123456789'' ! n]
      else sample_digits (n div 10) @ [''0123456789'' ! (n mod 10)])"

declare sample_digits.simps [simp del]

definition sample_ToString :: "json \<Rightarrow> string" where
  "sample_ToString v =
     (case v of
        JNum n \<Rightarrow> (if n < 0 then ''-'' @ sample_digits (nat (- n)) else sample_digits (nat n))
      | JStr s \<Rightarrow> s
      | JBool c \<Rightarrow> (if c then ''true'' else ''false'')
      | JNull \<Rightarrow> ''null''
      | _ \<Rightarrow> ''[object Object]'')"

definition sample_builtins :: js_builtins where
  "sample_builtins =
     \<lparr> JSON_stringify = sample_stringify, JSON_parse = sample_parse,
       ToString = sample_ToString, ToNumber = (\<lambda>v. None),
       trim = (\<lambda>s. rev (dropWhile (\<lambda>c. c = CHR '' '') (rev (dropWhile (\<lambda>c. c = CHR '' '') s)))),
       toLowerCase = map (\<lambda>c. case map_of (zip ''ABCDEFGHIJKLMNOPQRSTUVWXYZ''
                                                  ''abcdefghijklmnopqrstuvwxyz'') c of
                                   Some l \<Rightarrow> l | None \<Rightarrow> c) \<rparr>"

definition empty_storage :: web_storage where
  "empty_storage = \<lparr> items = Map.empty, accepts = (\<lambda>k t. True) \<rparr>"

definition full_storage :: web_storage where
  "full_storage = \<lparr> items = Map.empty, accepts = (\<lambda>k t. False) \<rparr>"

text \<open>A storage that holds the token \<^verbatim>\<open>abc\<close>, and client states around the storages.\<close>

definition token_storage :: web_storage where
  "token_storage =
     \<lparr> items = [''insbu_auth_token'' \<mapsto> [CHR 0x22] @ ''abc'' @ [CHR 0x22]],
       accepts = (\<lambda>k t. True) \<rparr>"

definition client_of :: "web_storage \<Rightarrow> client_state" where
  "client_of ls =
     \<lparr> localStorage = ls, defaults_Authorization = None, location_href = None, sent = [],
       user = None, loading = True, refreshing = False \<rparr>"

definition logged_in :: client_state where
  "logged_in =
     (client_of token_storage)
       \<lparr> defaults_Authorization := Some ''Bearer abc'',
         user := Some (JObj [(''email'', JStr ''admin@insbu.bi''), (''role'', JStr ''admin'')]),
         loading := False \<rparr>"

text \<open>
  The state after a login on a storage that rejects every write: \<^verbatim>\<open>login\<close> does not
  look at what \<^verbatim>\<open>storage.set\<close> returns, so the user and the default header are set
  and no token is stored.
\<close>

definition session_without_token :: client_state where
  "session_without_token =
     (client_of full_storage)
       \<lparr> defaults_Authorization := Some ''Bearer abc'',
         user := Some (JObj [(''email'', JStr ''admin@insbu.bi''), (''role'', JStr ''admin'')]),
         loading := False \<rparr>"

text \<open>
  A runtime whose JSON functions are extended by a table of values and their texts, the
  one that knows the cache entry of a news response, and a call of \<^verbatim>\<open>getWithCache\<close>
  without options.
\<close>

definition table_builtins :: "(json \<times> string) list \<Rightarrow> js_builtins" where
  "table_builtins tab =
     sample_builtins
       \<lparr> JSON_stringify := (\<lambda>v. case map_of tab v of Some t \<Rightarrow> t | None \<Rightarrow> sample_stringify v),
         JSON_parse := (\<lambda>t. case map_of (map prod.swap tab) t of
                              Some v \<Rightarrow> Some v | None \<Rightarrow> sample_parse t) \<rparr>"

definition news_builtins :: js_builtins where
  "news_builtins =
     table_builtins [(cache_entry (JStr ''news'') 1000, ''{data:news,timestamp:1000}'')]"

definition plain_config :: cache_config where
  "plain_config = \<lparr> cfg_params = None, cacheDuration = None, useCache = None \<rparr>"

text \<open>
  Stand-ins for the two functions the AuthProvider's handler closes over: a refresh
  that succeeds and stores the token \<^verbatim>\<open>new\<close>, and a re-issued request that the
  server answers with 200.
\<close>

definition sample_refreshToken :: "client_state \<Rightarrow> bool \<times> client_state" where
  "sample_refreshToken st =
     (True, st\<lparr>localStorage := snd (storage_set sample_builtins AUTH_TOKEN (JStr ''new'')
                                       (localStorage st)),
               defaults_Authorization := Some ''Bearer new'',
               sent := sent st @ [axios_post ''/auth/refresh'' None]\<rparr>)"

definition sample_api :: "request_config \<Rightarrow> client_state \<Rightarrow> (js_error + http_response) \<times> client_state" where
  "sample_api = api_call sample_builtins (Responded 200 (JObj []))"

text \<open>A user as the form of the admin page gives it.\<close>

definition sample_user :: user_data where
  "sample_user =
     \<lparr> ud_name = Some ''  Marie Uwimana '', ud_email = Some ''Marie.Uwimana@INSBU.bi'',
       ud_password = Some ''password123'', ud_role = Some ''editor'', ud_status = None \<rparr>"

text \<open>
  The provider of a logged-in user after its render, with the token \<^verbatim>\<open>abc\<close> stored
  and without a stored token, and a refresh response with the token \<^verbatim>\<open>xyz\<close>.
\<close>

definition logged_in_provider :: auth_provider where
  "logged_in_provider = render ((AuthProvider_mount (client_of token_storage))\<lparr>client := logged_in\<rparr>)"

definition provider_without_token :: auth_provider where
  "provider_without_token =
     render ((AuthProvider_mount (client_of full_storage))\<lparr>client := session_without_token\<rparr>)"

definition refresh_response :: transport_result where
  "refresh_response = Responded 200 (JObj [(''token'', JStr ''xyz'')])"

section \<open>The storage wrapper\<close>

lemma storage_get_missing: "items ls key = None \<Longrightarrow> storage_get b key ls = JNull"
  by (simp add: storage_get_def getItem_def)

lemma storage_get_unparsable:
  "items ls key = Some item \<Longrightarrow> JSON_parse b item = None \<Longrightarrow> storage_get b key ls = JNull"
  by (simp add: storage_get_def getItem_def)

lemma storage_get_remove: "storage_get b key (snd (storage_remove key ls)) = JNull"
  by (simp add: storage_get_def storage_remove_def removeItem_def getItem_def)

lemma storage_set_True:
  "fst (storage_set b key v ls) \<longleftrightarrow> accepts ls key (JSON_stringify b v)"
  by (simp add: storage_set_def setItem_def)

lemma storage_get_set:
  assumes "serializable b v" and "fst (storage_set b key v ls)"
  shows "storage_get b key (snd (storage_set b key v ls)) = v"
  using assms
  by (simp add: serializable_def storage_set_def setItem_def storage_get_def getItem_def
      split: if_splits)

lemma storage_set_rejected:
  "\<not> fst (storage_set b key v ls) \<Longrightarrow> snd (storage_set b key v ls) = ls"
  by (simp add: storage_set_def setItem_def split: if_splits)

lemma storage_set_other:
  "key' \<noteq> key \<Longrightarrow> storage_get b key' (snd (storage_set b key v ls)) = storage_get b key' ls"
  by (simp add: storage_set_def setItem_def storage_get_def getItem_def)

lemma sample_serializable_JStr:
  "CHR 0x22 \<notin> set s \<Longrightarrow> serializable sample_builtins (JStr s)"
  by (auto simp: serializable_def sample_builtins_def sample_stringify_def sample_parse_def
      butlast_append)

text \<open>
  C10, as stated, fails on a storage that rejects the write: \<^verbatim>\<open>storage.set\<close> catches
  the exception of \<^verbatim>\<open>setItem\<close> and returns false, and \<^verbatim>\<open>storage.get\<close> then gives
  \<^verbatim>\<open>null\<close>, not the value.
\<close>

theorem storage_roundtrip_counterexample:
  "serializable sample_builtins (JStr ''abc'')
   \<and> storage_get sample_builtins ''k''
        (snd (storage_set sample_builtins ''k'' (JStr ''abc'') full_storage)) \<noteq> JStr ''abc''"
  by (simp add: serializable_def sample_builtins_def sample_stringify_def sample_parse_def
      storage_set_def setItem_def full_storage_def storage_get_def getItem_def)

text \<open>
  C10 (as amended). The wrapper never throws: each operation returns a value. For
  every key and every JSON-serializable value \<open>v\<close>, \<^verbatim>\<open>storage.get(k)\<close> after a
  \<^verbatim>\<open>storage.set(k, v)\<close> that returned true gives \<open>v\<close> (and after one that returned
  false the storage is as it was); \<^verbatim>\<open>storage.get\<close> gives \<^verbatim>\<open>null\<close> for a missing key
  and for an item that does not parse; \<^verbatim>\<open>storage.get(k)\<close> after
  \<^verbatim>\<open>storage.remove(k)\<close> gives \<^verbatim>\<open>null\<close>.
\<close>

theorem storage_roundtrip:
  "(serializable b v \<and> fst (storage_set b key v ls)
      \<longrightarrow> storage_get b key (snd (storage_set b key v ls)) = v)
   \<and> (\<not> fst (storage_set b key v ls) \<longrightarrow> snd (storage_set b key v ls) = ls)
   \<and> (items ls key = None \<longrightarrow> storage_get b key ls = JNull)
   \<and> (\<forall>item. items ls key = Some item \<and> JSON_parse b item = None
        \<longrightarrow> storage_get b key ls = JNull)
   \<and> storage_get b key (snd (storage_remove key ls)) = JNull"
  using storage_get_set storage_set_rejected storage_get_missing storage_get_unparsable
    storage_get_remove
  by blast

theorem storage_roundtrip_witness:
  "serializable sample_builtins (JStr ''abc'')
   \<and> fst (storage_set sample_builtins ''k'' (JStr ''abc'') empty_storage)
   \<and> storage_get sample_builtins ''k''
        (snd (storage_set sample_builtins ''k'' (JStr ''abc'') empty_storage)) = JStr ''abc''
   \<and> \<not> fst (storage_set sample_builtins ''k'' (JStr ''abc'') full_storage)
   \<and> snd (storage_set sample_builtins ''k'' (JStr ''abc'') full_storage) = full_storage
   \<and> items empty_storage ''k'' = None
   \<and> storage_get sample_builtins ''k'' empty_storage = JNull
   \<and> items (empty_storage\<lparr>items := [''k'' \<mapsto> ''{oops'']\<rparr>) ''k'' = Some ''{oops''
   \<and> JSON_parse sample_builtins ''{oops'' = None
   \<and> storage_get sample_builtins ''k'' (empty_storage\<lparr>items := [''k'' \<mapsto> ''{oops'']\<rparr>) = JNull"
  using storage_roundtrip [of sample_builtins "JStr ''abc''" "''k''" empty_storage]
    storage_roundtrip [of sample_builtins "JStr ''abc''" "''k''" full_storage]
    storage_roundtrip [of sample_builtins "JStr ''abc''" "''k''"
      "empty_storage\<lparr>items := [''k'' \<mapsto> ''{oops'']\<rparr>"]
  by (simp add: serializable_def sample_builtins_def sample_stringify_def sample_parse_def
      storage_set_def setItem_def full_storage_def empty_storage_def)

section \<open>The bearer token on outgoing requests\<close>

lemma wire_request_header:
  "headers_Authorization (wire_request b cfg st)
     = (if truthy (storage_get b AUTH_TOKEN (localStorage st))
        then Some (''Bearer '' @ template b (storage_get b AUTH_TOKEN (localStorage st)))
        else (case headers_Authorization cfg of
                Some h \<Rightarrow> Some h
              | None \<Rightarrow> defaults_Authorization st))"
  by (simp add: wire_request_def request_interceptor_def axios_defaults_def Let_def
      split: option.splits)

lemma wire_request_eq:
  "wire_request b cfg st = cfg\<lparr>headers_Authorization := headers_Authorization (wire_request b cfg st)\<rparr>"
  by (simp add: wire_request_def request_interceptor_def axios_defaults_def Let_def
      split: option.splits)

lemma wire_request_merge_last:
  "wire_request b cfg st = axios_defaults st (request_interceptor b cfg st)"
  by (simp add: wire_request_def request_interceptor_def axios_defaults_def Let_def
      split: option.splits)

lemma wire_request_fields:
  "req_method (wire_request b cfg st) = req_method cfg
   \<and> url (wire_request b cfg st) = url cfg
   \<and> req_data (wire_request b cfg st) = req_data cfg
   \<and> params (wire_request b cfg st) = params cfg
   \<and> retry_mark (wire_request b cfg st) = retry_mark cfg"
  by (simp add: wire_request_def request_interceptor_def axios_defaults_def Let_def
      split: option.splits)

lemma api_call_sent:
  "sent (snd (api_call b tr cfg st)) = sent st @ [wire_request b cfg st]"
  by (cases tr)
     (simp_all add: api_call_def Let_def api_response_error_def split: option.splits prod.splits)

lemma request_interceptor_string:
  "storage_get b AUTH_TOKEN (localStorage st) = JStr tok \<Longrightarrow> tok \<noteq> []
   \<Longrightarrow> headers_Authorization (request_interceptor b cfg st) = Some (''Bearer '' @ tok)"
  by (simp add: request_interceptor_def Let_def template_def)

lemma request_interceptor_truthy:
  "truthy (storage_get b AUTH_TOKEN (localStorage st))
   \<Longrightarrow> headers_Authorization (request_interceptor b cfg st)
       = Some (''Bearer '' @ template b (storage_get b AUTH_TOKEN (localStorage st)))"
  by (simp add: request_interceptor_def Let_def)

lemma request_interceptor_none:
  "\<not> truthy (storage_get b AUTH_TOKEN (localStorage st)) \<Longrightarrow> request_interceptor b cfg st = cfg"
  by (simp add: request_interceptor_def Let_def)

lemma sample_get_token:
  "storage_get sample_builtins AUTH_TOKEN (localStorage logged_in) = JStr ''abc''"
  by (simp add: sample_builtins_def sample_parse_def token_storage_def logged_in_def
      client_of_def storage_get_def getItem_def AUTH_TOKEN_def)

lemma session_without_token_get:
  "storage_get b AUTH_TOKEN (localStorage session_without_token) = JNull"
  by (simp add: session_without_token_def client_of_def full_storage_def storage_get_def
      getItem_def)

text \<open>
  C4, as stated, fails where no token is stored and the axios instance has a default
  Authorization header, as after a login on a storage that rejects the write: the
  interceptor sets nothing, and the request goes out with the default header, not
  without one.
\<close>

theorem request_interceptor_token_counterexample:
  "isAuthenticated session_without_token
   \<and> items (localStorage session_without_token) ''insbu_auth_token'' = None
   \<and> storage_get sample_builtins AUTH_TOKEN (localStorage session_without_token) = JNull
   \<and> sent (snd (api_call sample_builtins (Responded 200 (JObj []))
               \<lparr> req_method = ''GET'', url = ''/news'', req_data = None, params = None,
                 headers_Authorization = None, retry_mark = False \<rparr>
               session_without_token))
      = [\<lparr> req_method = ''GET'', url = ''/news'', req_data = None, params = None,
            headers_Authorization = Some ''Bearer abc'', retry_mark = False \<rparr>]"
  by (simp add: api_call_sent wire_request_def request_interceptor_def axios_defaults_def
      Let_def session_without_token_get)
     (simp add: session_without_token_def client_of_def full_storage_def isAuthenticated_def)

text \<open>
  C4 (as amended). The request interceptor reads the token under
  \<^verbatim>\<open>insbu_auth_token\<close> through the storage wrapper. If a token (a non-empty string)
  is stored, the Authorization header of the request is \<^verbatim>\<open>Bearer\<close>, a space, and
  the token; this holds in particular after \<^verbatim>\<open>storage.set\<close> stored a serializable
  token (a truthy value that is not a string goes into the header as the template
  literal prints it). If no token is stored (the key is missing, or what the wrapper
  reads is not truthy), the interceptor leaves the config, and so the header, as it
  was: the request then goes out with the Authorization header of its own config, else
  with the default header of the axios instance, and without one only when neither is
  set. Every request that \<^verbatim>\<open>api\<close> puts on the wire is the config with exactly this
  header.
\<close>

theorem request_interceptor_token:
  "AUTH_TOKEN = ''insbu_auth_token''
   \<and> (\<forall>tok. storage_get b AUTH_TOKEN (localStorage st) = JStr tok \<and> tok \<noteq> []
        \<longrightarrow> headers_Authorization (request_interceptor b cfg st) = Some (''Bearer '' @ tok)
            \<and> headers_Authorization (wire_request b cfg st) = Some (''Bearer '' @ tok))
   \<and> (\<forall>tok. serializable b (JStr tok) \<and> tok \<noteq> []
          \<and> fst (storage_set b AUTH_TOKEN (JStr tok) (localStorage st))
        \<longrightarrow> headers_Authorization
              (request_interceptor b cfg
                 (st\<lparr>localStorage := snd (storage_set b AUTH_TOKEN (JStr tok) (localStorage st))\<rparr>))
            = Some (''Bearer '' @ tok))
   \<and> (truthy (storage_get b AUTH_TOKEN (localStorage st))
        \<longrightarrow> headers_Authorization (request_interceptor b cfg st)
            = Some (''Bearer '' @ template b (storage_get b AUTH_TOKEN (localStorage st))))
   \<and> (items (localStorage st) AUTH_TOKEN = None \<longrightarrow> request_interceptor b cfg st = cfg)
   \<and> (\<not> truthy (storage_get b AUTH_TOKEN (localStorage st))
        \<longrightarrow> request_interceptor b cfg st = cfg)
   \<and> sent (snd (api_call b tr cfg st)) = sent st @ [wire_request b cfg st]
   \<and> wire_request b cfg st
      = cfg\<lparr>headers_Authorization :=
             (if truthy (storage_get b AUTH_TOKEN (localStorage st))
              then Some (''Bearer '' @ template b (storage_get b AUTH_TOKEN (localStorage st)))
              else (case headers_Authorization cfg of
                      Some h \<Rightarrow> Some h
                    | None \<Rightarrow> defaults_Authorization st))\<rparr>
   \<and> (\<not> truthy (storage_get b AUTH_TOKEN (localStorage st))
        \<and> headers_Authorization cfg = None \<and> defaults_Authorization st = None
        \<longrightarrow> headers_Authorization (wire_request b cfg st) = None)"
proof (intro conjI allI impI)
  show "AUTH_TOKEN = ''insbu_auth_token''" by (simp add: AUTH_TOKEN_def)
next
  fix tok assume "storage_get b AUTH_TOKEN (localStorage st) = JStr tok \<and> tok \<noteq> []"
  then show "headers_Authorization (request_interceptor b cfg st) = Some (''Bearer '' @ tok)"
    by (simp add: request_interceptor_string)
next
  fix tok assume "storage_get b AUTH_TOKEN (localStorage st) = JStr tok \<and> tok \<noteq> []"
  then show "headers_Authorization (wire_request b cfg st) = Some (''Bearer '' @ tok)"
    by (simp add: wire_request_header template_def)
next
  fix tok
  assume a: "serializable b (JStr tok) \<and> tok \<noteq> []
          \<and> fst (storage_set b AUTH_TOKEN (JStr tok) (localStorage st))"
  then have "storage_get b AUTH_TOKEN (snd (storage_set b AUTH_TOKEN (JStr tok) (localStorage st)))
      = JStr tok"
    by (simp add: storage_get_set)
  with a show "headers_Authorization
              (request_interceptor b cfg
                 (st\<lparr>localStorage := snd (storage_set b AUTH_TOKEN (JStr tok) (localStorage st))\<rparr>))
            = Some (''Bearer '' @ tok)"
    by (simp add: request_interceptor_string)
next
  assume "truthy (storage_get b AUTH_TOKEN (localStorage st))"
  then show "headers_Authorization (request_interceptor b cfg st)
      = Some (''Bearer '' @ template b (storage_get b AUTH_TOKEN (localStorage st)))"
    by (rule request_interceptor_truthy)
next
  assume "items (localStorage st) AUTH_TOKEN = None"
  then show "request_interceptor b cfg st = cfg"
    by (simp add: request_interceptor_none storage_get_missing)
next
  assume "\<not> truthy (storage_get b AUTH_TOKEN (localStorage st))"
  then show "request_interceptor b cfg st = cfg" by (rule request_interceptor_none)
next
  show "sent (snd (api_call b tr cfg st)) = sent st @ [wire_request b cfg st]"
    by (rule api_call_sent)
next
  show "wire_request b cfg st
      = cfg\<lparr>headers_Authorization :=
             (if truthy (storage_get b AUTH_TOKEN (localStorage st))
              then Some (''Bearer '' @ template b (storage_get b AUTH_TOKEN (localStorage st)))
              else (case headers_Authorization cfg of
                      Some h \<Rightarrow> Some h
                    | None \<Rightarrow> defaults_Authorization st))\<rparr>"
    using wire_request_eq [of b cfg st] by (simp only: wire_request_header)
next
  assume "\<not> truthy (storage_get b AUTH_TOKEN (localStorage st))
        \<and> headers_Authorization cfg = None \<and> defaults_Authorization st = None"
  then show "headers_Authorization (wire_request b cfg st) = None"
    by (simp add: wire_request_header)
qed

theorem request_interceptor_token_witness:
  "storage_get sample_builtins AUTH_TOKEN (localStorage logged_in) = JStr ''abc''
   \<and> headers_Authorization
        (request_interceptor sample_builtins (axios_post ''/news'' None) logged_in)
      = Some ''Bearer abc''
   \<and> items (localStorage (client_of empty_storage)) AUTH_TOKEN = None
   \<and> headers_Authorization
        (request_interceptor sample_builtins (axios_post ''/news'' None) (client_of empty_storage))
      = None
   \<and> headers_Authorization
        (wire_request sample_builtins (axios_post ''/news'' None) (client_of empty_storage))
      = None
   \<and> headers_Authorization
        (wire_request sample_builtins (axios_post ''/news'' None) session_without_token)
      = Some ''Bearer abc''"
proof -
  have 1: "storage_get sample_builtins AUTH_TOKEN (localStorage logged_in) = JStr ''abc''"
    by (rule sample_get_token)
  have 2: "items (localStorage (client_of empty_storage)) AUTH_TOKEN = None"
    by (simp add: client_of_def empty_storage_def)
  from 1 request_interceptor_token [of sample_builtins logged_in "axios_post ''/news'' None"]
  have 3: "headers_Authorization
        (request_interceptor sample_builtins (axios_post ''/news'' None) logged_in)
      = Some ''Bearer abc''"
    by simp
  from 2 request_interceptor_token [of sample_builtins "client_of empty_storage"
      "axios_post ''/news'' None"]
  have 4: "request_interceptor sample_builtins (axios_post ''/news'' None) (client_of empty_storage)
     = axios_post ''/news'' None"
    by blast
  have 5: "\<not> truthy (storage_get sample_builtins AUTH_TOKEN (localStorage (client_of empty_storage)))"
    using 2 by (simp add: storage_get_missing)
  from 5 request_interceptor_token [of sample_builtins "client_of empty_storage"
      "axios_post ''/news'' None"]
  have 6: "headers_Authorization
        (wire_request sample_builtins (axios_post ''/news'' None) (client_of empty_storage))
      = None"
    by (simp add: axios_post_def client_of_def)
  have 7: "headers_Authorization
        (wire_request sample_builtins (axios_post ''/news'' None) session_without_token)
      = Some ''Bearer abc''"
    by (simp add: wire_request_header session_without_token_get axios_post_def)
       (simp add: session_without_token_def)
  show ?thesis using 1 2 3 4 6 7 by (simp add: axios_post_def)
qed

section \<open>Logout\<close>

text \<open>
  C9. After \<^verbatim>\<open>logout()\<close>, whatever the network did with the server call and whatever
  the state before (a token stored or not): no item is stored under
  \<^verbatim>\<open>insbu_auth_token\<close>, the default Authorization header is deleted, the user is
  \<^verbatim>\<open>null\<close>, so \<^verbatim>\<open>isAuthenticated\<close> is false, and \<^verbatim>\<open>loading\<close> is false.
\<close>

theorem logout_clears:
  "items (localStorage (logout b tr st)) ''insbu_auth_token'' = None
   \<and> storage_get b AUTH_TOKEN (localStorage (logout b tr st)) = JNull
   \<and> defaults_Authorization (logout b tr st) = None
   \<and> user (logout b tr st) = None
   \<and> \<not> isAuthenticated (logout b tr st)
   \<and> \<not> loading (logout b tr st)"
  by (simp add: logout_def Let_def storage_remove_def removeItem_def storage_get_def
      getItem_def isAuthenticated_def AUTH_TOKEN_def)

theorem logout_clears_witness:
  "isAuthenticated logged_in
   \<and> items (localStorage logged_in) ''insbu_auth_token'' \<noteq> None
   \<and> items (localStorage (logout sample_builtins (Responded 500 JNull) logged_in))
        ''insbu_auth_token'' = None
   \<and> \<not> isAuthenticated (logout sample_builtins (NoResponse ''ERR_NETWORK'' ''Network Error'') logged_in)
   \<and> user (logout sample_builtins (Responded 200 (JObj [])) (client_of empty_storage)) = None"
  using logout_clears [of sample_builtins "Responded 500 JNull" logged_in]
    logout_clears [of sample_builtins "NoResponse ''ERR_NETWORK'' ''Network Error''" logged_in]
    logout_clears [of sample_builtins "Responded 200 (JObj [])" "client_of empty_storage"]
  by (simp add: logged_in_def client_of_def token_storage_def isAuthenticated_def)

section \<open>Token refresh\<close>

lemma wire_request_refreshing: "wire_request b cfg (st\<lparr>refreshing := r\<rparr>) = wire_request b cfg st"
  by (simp add: wire_request_def request_interceptor_def axios_defaults_def Let_def
      split: option.splits)

lemma api_call_resolves:
  "200 \<le> s \<Longrightarrow> s < 300 \<Longrightarrow>
     api_call b (Responded s d) cfg st
       = (Inr \<lparr> status = s, data = d \<rparr>, st\<lparr>sent := sent st @ [wire_request b cfg st]\<rparr>)"
  by (simp add: api_call_def Let_def)

lemma api_call_rejects:
  "\<not> (\<exists>s d. tr = Responded s d \<and> 200 \<le> s \<and> s < 300) \<Longrightarrow> \<exists>e. fst (api_call b tr cfg st) = Inl e"
  by (cases tr) (auto simp: api_call_def Let_def split: prod.splits)

lemma logout_state:
  "items (localStorage (logout b tr st)) AUTH_TOKEN = None
   \<and> defaults_Authorization (logout b tr st) = None
   \<and> user (logout b tr st) = None"
  by (simp add: logout_def Let_def storage_remove_def removeItem_def)

lemma logout_sent: "\<exists>rest. sent (logout b tr st) = sent st @ rest"
  by (simp add: logout_def Let_def authService_logout_def api_call_sent)

lemma refreshToken_seen: "refreshToken b True tr tr_logout st = (False, st)"
  by (simp add: refreshToken_def)

lemma refreshToken_success:
  assumes "200 \<le> s" "s < 300" "get_field body ''token'' = Some t"
  shows "refreshToken b False (Responded s body) tr_logout st
     = (True,
        st\<lparr>sent := sent st @ [wire_request b (axios_post ''/auth/refresh'' None) st],
           localStorage := snd (storage_set b AUTH_TOKEN t (localStorage st)),
           defaults_Authorization := Some (''Bearer '' @ template b t),
           user := (case get_field body ''user'' of
                      Some u \<Rightarrow> if truthy u then Some u else user st
                    | None \<Rightarrow> user st),
           refreshing := False\<rparr>)"
proof -
  from assms(3) have "body \<noteq> JNull" by auto
  with assms show ?thesis
    by (simp add: refreshToken_def authService_refreshToken_def api_call_resolves
        wire_request_refreshing Let_def split: option.splits)
qed

lemma refreshToken_undefined:
  assumes "200 \<le> s" "s < 300" "body \<noteq> JNull" "get_field body ''token'' = None"
  shows "localStorage (snd (refreshToken b False (Responded s body) tr_logout st))
       = (if accepts (localStorage st) AUTH_TOKEN ''undefined''
          then (localStorage st)\<lparr>items := (items (localStorage st))(AUTH_TOKEN \<mapsto> ''undefined'')\<rparr>
          else localStorage st)"
    and "defaults_Authorization (snd (refreshToken b False (Responded s body) tr_logout st))
       = Some ''Bearer undefined''"
  using assms
  by (simp_all add: refreshToken_def authService_refreshToken_def api_call_resolves Let_def
      storage_set_undefined_def setItem_def split: option.splits)

lemma refreshToken_result:
  "fst (refreshToken b False tr tr_logout st)
     \<longleftrightarrow> (\<exists>s body. tr = Responded s body \<and> 200 \<le> s \<and> s < 300 \<and> body \<noteq> JNull)"
proof (cases "\<exists>s d. tr = Responded s d \<and> 200 \<le> s \<and> s < 300")
  case True
  then obtain s d where "tr = Responded s d" "200 \<le> s" "s < 300" by blast
  then show ?thesis
    by (simp add: refreshToken_def authService_refreshToken_def api_call_resolves Let_def)
next
  case False
  from api_call_rejects [OF this, of b "axios_post ''/auth/refresh'' None" "st\<lparr>refreshing := True\<rparr>"]
  obtain e where "fst (api_call b tr (axios_post ''/auth/refresh'' None) (st\<lparr>refreshing := True\<rparr>))
      = Inl e" by blast
  with False show ?thesis
    by (auto simp: refreshToken_def authService_refreshToken_def split: prod.splits sum.splits)
qed

lemma refreshToken_failure:
  assumes "\<not> fst (refreshToken b False tr tr_logout st)"
  shows "user (snd (refreshToken b False tr tr_logout st)) = None
     \<and> items (localStorage (snd (refreshToken b False tr tr_logout st))) AUTH_TOKEN = None
     \<and> defaults_Authorization (snd (refreshToken b False tr tr_logout st)) = None
     \<and> \<not> refreshing (snd (refreshToken b False tr tr_logout st))"
  using assms
  by (auto simp: refreshToken_def authService_refreshToken_def logout_state Let_def
      split: prod.splits sum.splits if_splits)

lemma refreshToken_first_request:
  "\<exists>rest. sent (snd (refreshToken b False tr tr_logout st))
     = sent st @ wire_request b (axios_post ''/auth/refresh'' None) st # rest"
proof -
  obtain res st1 where a: "api_call b tr (axios_post ''/auth/refresh'' None) (st\<lparr>refreshing := True\<rparr>)
      = (res, st1)"
    by (cases "api_call b tr (axios_post ''/auth/refresh'' None) (st\<lparr>refreshing := True\<rparr>)")
  have s1: "sent st1 = sent st @ [wire_request b (axios_post ''/auth/refresh'' None) st]"
    using api_call_sent [of b tr "axios_post ''/auth/refresh'' None" "st\<lparr>refreshing := True\<rparr>"] a
    by (simp add: wire_request_refreshing)
  obtain rest where l: "sent (logout b tr_logout st1) = sent st1 @ rest"
    using logout_sent by blast
  show ?thesis
  proof (cases "fst (refreshToken b False tr tr_logout st)")
    case True
    with a have "sent (snd (refreshToken b False tr tr_logout st)) = sent st1"
      by (auto simp: refreshToken_def authService_refreshToken_def Let_def
          split: sum.splits if_splits option.splits)
    with s1 show ?thesis by simp
  next
    case False
    with a have "sent (snd (refreshToken b False tr tr_logout st)) = sent (logout b tr_logout st1)"
      by (auto simp: refreshToken_def authService_refreshToken_def Let_def
          split: sum.splits if_splits option.splits)
    with s1 l show ?thesis by simp
  qed
qed

lemma render_synced:
  assumes "effect_synced p"
  shows "effect_synced (render p)
     \<and> refreshInterval (render p)
         = (if isAuthenticated (client p) then Some (15 * 60 * 1000) else None)
     \<and> seen_authenticated (render p) = isAuthenticated (client p)
     \<and> seen_refreshing (render p) = refreshing (client p)
     \<and> client (render p) = client p"
  using assms
  by (auto simp: effect_synced_def render_def refresh_effect_def effect_cleanup_def Let_def)

lemma mount_synced:
  "effect_synced (AuthProvider_mount st) \<and> refreshInterval (AuthProvider_mount st) = None
   \<and> \<not> isAuthenticated (client (AuthProvider_mount st))"
  by (simp add: effect_synced_def AuthProvider_mount_def refresh_effect_def isAuthenticated_def)

lemma logged_in_provider_eq:
  "logged_in_provider
     = \<lparr> client = logged_in, seen_authenticated = True, seen_refreshing = False,
         refreshInterval = Some 900000 \<rparr>"
  by (simp add: logged_in_provider_def render_def AuthProvider_mount_def refresh_effect_def
      effect_cleanup_def Let_def isAuthenticated_def logged_in_def client_of_def)

lemma provider_without_token_eq:
  "provider_without_token
     = \<lparr> client = session_without_token, seen_authenticated = True, seen_refreshing = False,
         refreshInterval = Some 900000 \<rparr>"
  by (simp add: provider_without_token_def render_def AuthProvider_mount_def refresh_effect_def
      effect_cleanup_def Let_def isAuthenticated_def session_without_token_def client_of_def)

text \<open>
  C7, as stated, fails in two ways. While a user is authenticated and no token is
  stored, as after a login on a storage that rejects the write, the timer runs and its
  firing calls nothing. And \<^verbatim>\<open>refreshToken\<close> tests the \<^verbatim>\<open>refreshing\<close> of the render
  that made it: a refresh invoked while another is in flight (\<^verbatim>\<open>setRefreshing(true)\<close>
  has run) and before the provider has rendered again issues a request and returns
  true.
\<close>

theorem token_refresh_counterexample:
  "isAuthenticated (client provider_without_token)
   \<and> refreshInterval provider_without_token = Some (15 * 60 * 1000)
   \<and> interval_fires sample_builtins refresh_response (Responded 200 (JObj []))
        provider_without_token = provider_without_token
   \<and> sent (client provider_without_token) = []
   \<and> refreshing (client (logged_in_provider\<lparr>client := logged_in\<lparr>refreshing := True\<rparr>\<rparr>))
   \<and> fst (refreshToken sample_builtins
            (seen_refreshing (logged_in_provider\<lparr>client := logged_in\<lparr>refreshing := True\<rparr>\<rparr>))
            refresh_response (Responded 200 (JObj []))
            (client (logged_in_provider\<lparr>client := logged_in\<lparr>refreshing := True\<rparr>\<rparr>)))
   \<and> sent (snd (refreshToken sample_builtins
            (seen_refreshing (logged_in_provider\<lparr>client := logged_in\<lparr>refreshing := True\<rparr>\<rparr>))
            refresh_response (Responded 200 (JObj []))
            (client (logged_in_provider\<lparr>client := logged_in\<lparr>refreshing := True\<rparr>\<rparr>))))
      = [\<lparr> req_method = ''post'', url = ''/auth/refresh'', req_data = None, params = None,
            headers_Authorization = Some ''Bearer abc'', retry_mark = False \<rparr>]"
proof -
  have 1: "interval_fires sample_builtins refresh_response (Responded 200 (JObj []))
        provider_without_token = provider_without_token"
    by (simp add: provider_without_token_eq interval_fires_def interval_callback_def
        session_without_token_get)
  have 2: "isAuthenticated (client provider_without_token)
      \<and> sent (client provider_without_token) = []"
    by (simp add: provider_without_token_eq)
       (simp add: session_without_token_def client_of_def isAuthenticated_def)
  have w: "wire_request sample_builtins (axios_post ''/auth/refresh'' None)
        (logged_in\<lparr>refreshing := True\<rparr>)
      = \<lparr> req_method = ''post'', url = ''/auth/refresh'', req_data = None, params = None,
          headers_Authorization = Some ''Bearer abc'', retry_mark = False \<rparr>"
    using sample_get_token
    by (simp add: wire_request_def request_interceptor_def axios_defaults_def Let_def
        template_def axios_post_def)
  have 3: "refreshToken sample_builtins False refresh_response (Responded 200 (JObj []))
        (logged_in\<lparr>refreshing := True\<rparr>)
      = (True,
         logged_in\<lparr>sent := [\<lparr> req_method = ''post'', url = ''/auth/refresh'', req_data = None,
                               params = None, headers_Authorization = Some ''Bearer abc'',
                               retry_mark = False \<rparr>],
                   localStorage := snd (storage_set sample_builtins AUTH_TOKEN (JStr ''xyz'')
                                          token_storage),
                   defaults_Authorization := Some ''Bearer xyz''\<rparr>)"
    unfolding refresh_response_def
    by (simp add: refreshToken_success w template_def)
       (simp add: logged_in_def client_of_def)
  show ?thesis
    using 1 2 3 by (simp add: provider_without_token_eq logged_in_provider_eq)
qed

text \<open>
  C7 (as amended). An effect of the auth context keeps an interval timer of 15 minutes
  running exactly while the last render of the provider was authenticated: the first
  render sets none up, a render after which \<^verbatim>\<open>isAuthenticated\<close> or \<^verbatim>\<open>refreshToken\<close>
  has changed clears the timer and sets a new one up only when the user is
  authenticated, and unmounting clears it. When the timer fires and a token is stored
  under \<^verbatim>\<open>insbu_auth_token\<close>, it calls \<^verbatim>\<open>refreshToken\<close>; when no token is stored it
  does nothing. A \<^verbatim>\<open>refreshToken\<close> made by a render that saw \<^verbatim>\<open>refreshing = true\<close>
  returns false, issues no request and changes nothing; so does a refresh invoked
  while another is in flight once the provider has rendered, and a firing of the timer
  then changes nothing. Otherwise the first request of \<^verbatim>\<open>refreshToken\<close> is
  the POST to \<^verbatim>\<open>/auth/refresh\<close>, and it returns true exactly when the response has a
  status from 200 to 299 and a body that is not \<^verbatim>\<open>null\<close>. With a token in that body, it
  stores the token through \<^verbatim>\<open>storage.set\<close> (so that the stored token is the new one
  when the token is serializable and \<^verbatim>\<open>storage.set\<close> returned true), sets the default
  header to \<^verbatim>\<open>Bearer\<close> and the token, takes over the user of the body when there is
  one, and sends nothing else. When it returns false it has logged the user out: no
  user, no stored token, no default header. In both cases \<^verbatim>\<open>refreshing\<close> is false
  afterwards.
\<close>

theorem token_refresh:
  "effect_synced (AuthProvider_mount st0) \<and> refreshInterval (AuthProvider_mount st0) = None
   \<and> (effect_synced p \<longrightarrow>
        effect_synced (render p)
        \<and> refreshInterval (render p)
            = (if isAuthenticated (client p) then Some (15 * 60 * 1000) else None)
        \<and> seen_refreshing (render p) = refreshing (client p)
        \<and> client (render p) = client p
        \<and> effect_synced (interval_fires b tr tr_logout p)
        \<and> refreshInterval (interval_fires b tr tr_logout p) = refreshInterval p
        \<and> (refreshing (client p) \<longrightarrow>
              refreshToken b (seen_refreshing (render p)) tr tr_logout (client (render p))
                = (False, client p)
              \<and> interval_fires b tr tr_logout (render p) = render p))
   \<and> refreshInterval (unmount p) = None
   \<and> (refreshInterval p = None \<longrightarrow> interval_fires b tr tr_logout p = p)
   \<and> (refreshInterval p \<noteq> None \<longrightarrow>
        client (interval_fires b tr tr_logout p)
          = (if truthy (storage_get b AUTH_TOKEN (localStorage (client p)))
             then snd (refreshToken b (seen_refreshing p) tr tr_logout (client p))
             else client p))
   \<and> refreshToken b True tr tr_logout st = (False, st)
   \<and> AuthProvider_mount st0
        = \<lparr> client = st0\<lparr>user := None, loading := True, refreshing := False\<rparr>,
            seen_authenticated = False, seen_refreshing = False, refreshInterval = None \<rparr>
   \<and> unmount p = p\<lparr>refreshInterval := None\<rparr>
   \<and> interval_fires b tr tr_logout p
        = p\<lparr>client := (if refreshInterval p \<noteq> None
                           \<and> truthy (storage_get b AUTH_TOKEN (localStorage (client p)))
                        then snd (refreshToken b (seen_refreshing p) tr tr_logout (client p))
                        else client p)\<rparr>
   \<and> (isAuthenticated (client p) = seen_authenticated p
          \<and> refreshing (client p) = seen_refreshing p \<longrightarrow> render p = p)
   \<and> (\<forall>s body. 200 \<le> s \<and> s < 300 \<and> body \<noteq> JNull \<and> get_field body ''token'' = None \<longrightarrow>
          localStorage (snd (refreshToken b False (Responded s body) tr_logout st))
            = (if accepts (localStorage st) AUTH_TOKEN ''undefined''
               then (localStorage st)
                      \<lparr>items := (items (localStorage st))(AUTH_TOKEN \<mapsto> ''undefined'')\<rparr>
               else localStorage st)
          \<and> defaults_Authorization (snd (refreshToken b False (Responded s body) tr_logout st))
              = Some ''Bearer undefined'')
   \<and> (fst (refreshToken b False tr tr_logout st)
        \<longleftrightarrow> (\<exists>s body. tr = Responded s body \<and> 200 \<le> s \<and> s < 300 \<and> body \<noteq> JNull))
   \<and> (\<exists>rest. sent (snd (refreshToken b False tr tr_logout st))
          = sent st @ wire_request b
                        \<lparr> req_method = ''post'', url = ''/auth/refresh'', req_data = None,
                          params = None, headers_Authorization = None, retry_mark = False \<rparr> st
                      # rest)
   \<and> (\<forall>s body t. 200 \<le> s \<and> s < 300 \<and> get_field body ''token'' = Some t \<longrightarrow>
          refreshToken b False (Responded s body) tr_logout st
            = (True,
               st\<lparr>sent := sent st
                     @ [wire_request b
                          \<lparr> req_method = ''post'', url = ''/auth/refresh'', req_data = None,
                            params = None, headers_Authorization = None, retry_mark = False \<rparr>
                          st],
                  localStorage := snd (storage_set b AUTH_TOKEN t (localStorage st)),
                  defaults_Authorization := Some (''Bearer '' @ template b t),
                  user := (case get_field body ''user'' of
                             Some u \<Rightarrow> if truthy u then Some u else user st
                           | None \<Rightarrow> user st),
                  refreshing := False\<rparr>)
          \<and> (serializable b t \<and> fst (storage_set b AUTH_TOKEN t (localStorage st)) \<longrightarrow>
                storage_get b AUTH_TOKEN
                  (localStorage (snd (refreshToken b False (Responded s body) tr_logout st))) = t))
   \<and> (\<not> fst (refreshToken b False tr tr_logout st) \<longrightarrow>
        user (snd (refreshToken b False tr tr_logout st)) = None
        \<and> items (localStorage (snd (refreshToken b False tr tr_logout st))) AUTH_TOKEN = None
        \<and> defaults_Authorization (snd (refreshToken b False tr tr_logout st)) = None
        \<and> \<not> refreshing (snd (refreshToken b False tr tr_logout st)))"
proof (intro conjI impI allI)
  show "effect_synced (AuthProvider_mount st0)" by (simp add: mount_synced)
next
  show "refreshInterval (AuthProvider_mount st0) = None" by (simp add: mount_synced)
next
  assume "effect_synced p"
  then show "effect_synced (render p)" by (simp add: render_synced)
next
  assume "effect_synced p"
  then show "refreshInterval (render p)
      = (if isAuthenticated (client p) then Some (15 * 60 * 1000) else None)"
    by (simp add: render_synced)
next
  assume "effect_synced p"
  then show "seen_refreshing (render p) = refreshing (client p)" by (simp add: render_synced)
next
  assume "effect_synced p"
  then show "client (render p) = client p" by (simp add: render_synced)
next
  assume "effect_synced p"
  then show "effect_synced (interval_fires b tr tr_logout p)"
    by (simp add: effect_synced_def interval_fires_def split: option.splits)
next
  show "refreshInterval (interval_fires b tr tr_logout p) = refreshInterval p"
    by (simp add: interval_fires_def split: option.splits)
next
  assume "effect_synced p" and "refreshing (client p)"
  then show "refreshToken b (seen_refreshing (render p)) tr tr_logout (client (render p))
      = (False, client p)"
    by (simp add: render_synced refreshToken_seen)
next
  assume a: "effect_synced p" and r: "refreshing (client p)"
  then have "interval_callback b (seen_refreshing (render p)) tr tr_logout (client (render p))
      = client (render p)"
    by (simp add: interval_callback_def Let_def render_synced refreshToken_seen)
  then show "interval_fires b tr tr_logout (render p) = render p"
    by (simp add: interval_fires_def split: option.splits)
next
  show "refreshInterval (unmount p) = None" by (simp add: unmount_def effect_cleanup_def)
next
  assume "refreshInterval p = None"
  then show "interval_fires b tr tr_logout p = p" by (simp add: interval_fires_def)
next
  assume "refreshInterval p \<noteq> None"
  then show "client (interval_fires b tr tr_logout p)
      = (if truthy (storage_get b AUTH_TOKEN (localStorage (client p)))
         then snd (refreshToken b (seen_refreshing p) tr tr_logout (client p))
         else client p)"
    by (auto simp: interval_fires_def interval_callback_def Let_def)
next
  show "refreshToken b True tr tr_logout st = (False, st)" by (rule refreshToken_seen)
next
  show "AuthProvider_mount st0
        = \<lparr> client = st0\<lparr>user := None, loading := True, refreshing := False\<rparr>,
            seen_authenticated = False, seen_refreshing = False, refreshInterval = None \<rparr>"
    by (simp add: AuthProvider_mount_def refresh_effect_def)
next
  show "unmount p = p\<lparr>refreshInterval := None\<rparr>" by (simp add: unmount_def effect_cleanup_def)
next
  show "interval_fires b tr tr_logout p
        = p\<lparr>client := (if refreshInterval p \<noteq> None
                           \<and> truthy (storage_get b AUTH_TOKEN (localStorage (client p)))
                        then snd (refreshToken b (seen_refreshing p) tr tr_logout (client p))
                        else client p)\<rparr>"
    by (simp add: interval_fires_def interval_callback_def Let_def split: option.splits)
next
  assume "isAuthenticated (client p) = seen_authenticated p
          \<and> refreshing (client p) = seen_refreshing p"
  then show "render p = p" by (simp add: render_def Let_def)
next
  fix s :: int and body
  assume "200 \<le> s \<and> s < 300 \<and> body \<noteq> JNull \<and> get_field body ''token'' = None"
  then show "localStorage (snd (refreshToken b False (Responded s body) tr_logout st))
            = (if accepts (localStorage st) AUTH_TOKEN ''undefined''
               then (localStorage st)
                      \<lparr>items := (items (localStorage st))(AUTH_TOKEN \<mapsto> ''undefined'')\<rparr>
               else localStorage st)"
    by (simp add: refreshToken_undefined)
next
  fix s :: int and body
  assume "200 \<le> s \<and> s < 300 \<and> body \<noteq> JNull \<and> get_field body ''token'' = None"
  then show "defaults_Authorization (snd (refreshToken b False (Responded s body) tr_logout st))
              = Some ''Bearer undefined''"
    by (simp add: refreshToken_undefined)
next
  show "fst (refreshToken b False tr tr_logout st)
      \<longleftrightarrow> (\<exists>s body. tr = Responded s body \<and> 200 \<le> s \<and> s < 300 \<and> body \<noteq> JNull)"
    by (rule refreshToken_result)
next
  show "\<exists>rest. sent (snd (refreshToken b False tr tr_logout st))
          = sent st @ wire_request b
                        \<lparr> req_method = ''post'', url = ''/auth/refresh'', req_data = None,
                          params = None, headers_Authorization = None, retry_mark = False \<rparr> st
                      # rest"
    using refreshToken_first_request [of b tr tr_logout st] by (simp add: axios_post_def)
next
  fix s :: int and body t
  assume a: "200 \<le> s \<and> s < 300 \<and> get_field body ''token'' = Some t"
  then show "refreshToken b False (Responded s body) tr_logout st
            = (True,
               st\<lparr>sent := sent st
                     @ [wire_request b
                          \<lparr> req_method = ''post'', url = ''/auth/refresh'', req_data = None,
                            params = None, headers_Authorization = None, retry_mark = False \<rparr>
                          st],
                  localStorage := snd (storage_set b AUTH_TOKEN t (localStorage st)),
                  defaults_Authorization := Some (''Bearer '' @ template b t),
                  user := (case get_field body ''user'' of
                             Some u \<Rightarrow> if truthy u then Some u else user st
                           | None \<Rightarrow> user st),
                  refreshing := False\<rparr>)"
    using refreshToken_success [of s body t b tr_logout st] by (simp add: axios_post_def)
next
  fix s :: int and body t
  assume a: "200 \<le> s \<and> s < 300 \<and> get_field body ''token'' = Some t"
    and c: "serializable b t \<and> fst (storage_set b AUTH_TOKEN t (localStorage st))"
  from a have "localStorage (snd (refreshToken b False (Responded s body) tr_logout st))
      = snd (storage_set b AUTH_TOKEN t (localStorage st))"
    by (simp add: refreshToken_success)
  with c show "storage_get b AUTH_TOKEN
      (localStorage (snd (refreshToken b False (Responded s body) tr_logout st))) = t"
    by (simp add: storage_get_set)
next
  assume "\<not> fst (refreshToken b False tr tr_logout st)"
  then show "user (snd (refreshToken b False tr tr_logout st)) = None"
    by (simp add: refreshToken_failure)
next
  assume "\<not> fst (refreshToken b False tr tr_logout st)"
  then show "items (localStorage (snd (refreshToken b False tr tr_logout st))) AUTH_TOKEN = None"
    by (simp add: refreshToken_failure)
next
  assume "\<not> fst (refreshToken b False tr tr_logout st)"
  then show "defaults_Authorization (snd (refreshToken b False tr tr_logout st)) = None"
    by (simp add: refreshToken_failure)
next
  assume "\<not> fst (refreshToken b False tr tr_logout st)"
  then show "\<not> refreshing (snd (refreshToken b False tr tr_logout st))"
    by (simp add: refreshToken_failure)
qed

theorem token_refresh_witness:
  "effect_synced ((AuthProvider_mount (client_of token_storage))\<lparr>client := logged_in\<rparr>)
   \<and> isAuthenticated logged_in
   \<and> refreshInterval logged_in_provider = Some 900000
   \<and> interval_fires sample_builtins refresh_response (Responded 200 (JObj []))
        (AuthProvider_mount (client_of token_storage))
      = AuthProvider_mount (client_of token_storage)
   \<and> client (interval_fires sample_builtins refresh_response (Responded 200 (JObj []))
               logged_in_provider)
      = logged_in
          \<lparr> sent := [\<lparr> req_method = ''post'', url = ''/auth/refresh'', req_data = None,
                       params = None, headers_Authorization = Some ''Bearer abc'',
                       retry_mark = False \<rparr>],
            localStorage := snd (storage_set sample_builtins AUTH_TOKEN (JStr ''xyz'')
                                   token_storage),
            defaults_Authorization := Some ''Bearer xyz'' \<rparr>
   \<and> storage_get sample_builtins AUTH_TOKEN
        (localStorage (client (interval_fires sample_builtins refresh_response
                                 (Responded 200 (JObj [])) logged_in_provider)))
      = JStr ''xyz''
   \<and> refreshInterval
        (render (interval_fires sample_builtins (Responded 500 JNull) (Responded 200 (JObj []))
                   logged_in_provider))
      = None
   \<and> refreshToken sample_builtins True refresh_response (Responded 200 (JObj [])) logged_in
      = (False, logged_in)
   \<and> refreshing (client (logged_in_provider\<lparr>client := logged_in\<lparr>refreshing := True\<rparr>\<rparr>))
   \<and> interval_fires sample_builtins refresh_response (Responded 200 (JObj []))
        (render (logged_in_provider\<lparr>client := logged_in\<lparr>refreshing := True\<rparr>\<rparr>))
      = render (logged_in_provider\<lparr>client := logged_in\<lparr>refreshing := True\<rparr>\<rparr>)"
proof -
  let ?p0 = "(AuthProvider_mount (client_of token_storage))\<lparr>client := logged_in\<rparr>"
  let ?ok = "Responded 200 (JObj [])"
  let ?bad = "Responded 500 JNull"
  have auth: "isAuthenticated logged_in"
    by (simp add: isAuthenticated_def logged_in_def client_of_def)
  have tok: "truthy (storage_get sample_builtins AUTH_TOKEN (localStorage logged_in))"
    by (simp add: sample_get_token)
  have p: "logged_in_provider = render ?p0" by (simp add: logged_in_provider_def)
  note m = token_refresh [of "client_of token_storage" "AuthProvider_mount (client_of token_storage)"
      sample_builtins refresh_response ?ok logged_in]
  from m [THEN conjunct1] m [THEN conjunct2, THEN conjunct1]
  have s0: "effect_synced ?p0"
    by (simp add: effect_synced_def)
  from m [THEN conjunct2, THEN conjunct2, THEN conjunct2, THEN conjunct2, THEN conjunct1, rule_format, OF m [THEN conjunct2, THEN conjunct1]]
  have 2: "interval_fires sample_builtins refresh_response ?ok
        (AuthProvider_mount (client_of token_storage))
      = AuthProvider_mount (client_of token_storage)" .
  note r = token_refresh [of "client_of token_storage" ?p0 sample_builtins refresh_response ?ok
      logged_in, THEN conjunct2, THEN conjunct2, THEN conjunct1, rule_format, OF s0]
  from r auth have 1: "refreshInterval logged_in_provider = Some 900000"
    "effect_synced logged_in_provider" "client logged_in_provider = logged_in"
    "seen_refreshing logged_in_provider = False"
    unfolding p by (simp_all add: logged_in_def client_of_def)
  have w: "wire_request sample_builtins
        \<lparr> req_method = ''post'', url = ''/auth/refresh'', req_data = None, params = None,
          headers_Authorization = None, retry_mark = False \<rparr> logged_in
      = \<lparr> req_method = ''post'', url = ''/auth/refresh'', req_data = None, params = None,
          headers_Authorization = Some ''Bearer abc'', retry_mark = False \<rparr>"
    using sample_get_token
    by (simp add: wire_request_def request_interceptor_def axios_defaults_def Let_def
        template_def)
  note t = token_refresh [of "client_of token_storage" logged_in_provider sample_builtins
      refresh_response ?ok logged_in]
  have g: "200 \<le> (200::int) \<and> (200::int) < 300
      \<and> get_field (JObj [(''token'', JStr ''xyz'')]) ''token'' = Some (JStr ''xyz'')"
    by simp
  note sc = t [THEN conjunct2, THEN conjunct2, THEN conjunct2, THEN conjunct2, THEN conjunct2,
      THEN conjunct2, THEN conjunct2, THEN conjunct2, THEN conjunct2, THEN conjunct2,
      THEN conjunct2, THEN conjunct2, THEN conjunct2, THEN conjunct2, THEN conjunct1, rule_format, OF g]
  from sc [THEN conjunct1]
  have succ: "refreshToken sample_builtins False refresh_response ?ok logged_in
      = (True,
         logged_in
          \<lparr> sent := [\<lparr> req_method = ''post'', url = ''/auth/refresh'', req_data = None,
                       params = None, headers_Authorization = Some ''Bearer abc'',
                       retry_mark = False \<rparr>],
            localStorage := snd (storage_set sample_builtins AUTH_TOKEN (JStr ''xyz'')
                                   token_storage),
            defaults_Authorization := Some ''Bearer xyz'' \<rparr>)"
    unfolding refresh_response_def
    by (simp add: w template_def) (simp add: logged_in_def client_of_def)
  have ne: "refreshInterval logged_in_provider \<noteq> None" using 1(1) by simp
  from t [THEN conjunct2, THEN conjunct2, THEN conjunct2, THEN conjunct2, THEN conjunct2,
      THEN conjunct1, rule_format, OF ne] 1 tok
  have fires: "client (interval_fires sample_builtins refresh_response ?ok logged_in_provider)
      = snd (refreshToken sample_builtins False refresh_response ?ok logged_in)"
    by simp
  have 3: "client (interval_fires sample_builtins refresh_response ?ok logged_in_provider)
      = logged_in
          \<lparr> sent := [\<lparr> req_method = ''post'', url = ''/auth/refresh'', req_data = None,
                       params = None, headers_Authorization = Some ''Bearer abc'',
                       retry_mark = False \<rparr>],
            localStorage := snd (storage_set sample_builtins AUTH_TOKEN (JStr ''xyz'')
                                   token_storage),
            defaults_Authorization := Some ''Bearer xyz'' \<rparr>"
    unfolding fires succ by simp
  have ser: "serializable sample_builtins (JStr ''xyz'')"
    by (simp add: sample_serializable_JStr)
  have acc: "fst (storage_set sample_builtins AUTH_TOKEN (JStr ''xyz'') (localStorage logged_in))"
    by (simp add: storage_set_True logged_in_def client_of_def token_storage_def)
  from sc [THEN conjunct2, rule_format, OF conjI [OF ser acc]]
  have "storage_get sample_builtins AUTH_TOKEN
        (localStorage (snd (refreshToken sample_builtins False refresh_response ?ok logged_in)))
      = JStr ''xyz''"
    unfolding refresh_response_def .
  then have 4: "storage_get sample_builtins AUTH_TOKEN
        (localStorage (client (interval_fires sample_builtins refresh_response ?ok
                                 logged_in_provider)))
      = JStr ''xyz''"
    unfolding fires .
  note f = token_refresh [of "client_of token_storage" logged_in_provider sample_builtins
      ?bad ?ok logged_in]
  from f [THEN conjunct2, THEN conjunct2, THEN conjunct2, THEN conjunct2, THEN conjunct2,
      THEN conjunct2, THEN conjunct2, THEN conjunct2, THEN conjunct2, THEN conjunct2,
      THEN conjunct2, THEN conjunct2, THEN conjunct1] have nf: "\<not> fst (refreshToken sample_builtins False ?bad ?ok logged_in)"
    by simp
  from f [THEN conjunct2, THEN conjunct2, THEN conjunct2, THEN conjunct2, THEN conjunct2,
      THEN conjunct2, THEN conjunct2, THEN conjunct2, THEN conjunct2, THEN conjunct2,
      THEN conjunct2, THEN conjunct2, THEN conjunct2, THEN conjunct2, THEN conjunct2, rule_format, OF nf]
  have u: "user (snd (refreshToken sample_builtins False ?bad ?ok logged_in)) = None"
    by blast
  from f [THEN conjunct2, THEN conjunct2, THEN conjunct2, THEN conjunct2, THEN conjunct2,
      THEN conjunct1, rule_format, OF ne] 1 tok
  have c: "client (interval_fires sample_builtins ?bad ?ok logged_in_provider)
      = snd (refreshToken sample_builtins False ?bad ?ok logged_in)"
    by simp
  from f [THEN conjunct2, THEN conjunct2, THEN conjunct1, rule_format, OF 1(2)]
  have sy: "effect_synced (interval_fires sample_builtins ?bad ?ok logged_in_provider)"
    by blast
  from token_refresh [of "client_of token_storage"
      "interval_fires sample_builtins ?bad ?ok logged_in_provider" sample_builtins ?bad ?ok
      logged_in, THEN conjunct2, THEN conjunct2, THEN conjunct1, rule_format, OF sy]
  have 5: "refreshInterval
        (render (interval_fires sample_builtins ?bad ?ok logged_in_provider))
      = None"
    unfolding c by (simp add: isAuthenticated_def u)
  from t [THEN conjunct2, THEN conjunct2, THEN conjunct2, THEN conjunct2, THEN conjunct2,
      THEN conjunct2, THEN conjunct1] have 6: "refreshToken sample_builtins True refresh_response ?ok logged_in
      = (False, logged_in)" .
  let ?q = "logged_in_provider\<lparr>client := logged_in\<lparr>refreshing := True\<rparr>\<rparr>"
  have sq: "effect_synced ?q" using 1(2) by (simp add: effect_synced_def)
  have rq: "refreshing (client ?q)" by simp
  from token_refresh [of "client_of token_storage" ?q sample_builtins refresh_response ?ok
      logged_in, THEN conjunct2, THEN conjunct2, THEN conjunct1, rule_format, OF sq]
  have 7: "interval_fires sample_builtins refresh_response ?ok (render ?q) = render ?q"
    using rq by blast
  from s0 auth 1(1) 2 3 4 5 6 rq 7 show ?thesis by blast
qed

section \<open>Pagination\<close>

text \<open>
  C6. Every change of the query resets the page to 1: the search setter once its
  debounce delay has passed, \<^verbatim>\<open>updateFilters\<close>, \<^verbatim>\<open>updateSort\<close> and
  \<^verbatim>\<open>clearFilters\<close>. \<^verbatim>\<open>updateFilters\<close> merges the new filters over the existing ones;
  \<^verbatim>\<open>clearFilters\<close> also empties the filters, clears the search term and restores
  \<^verbatim>\<open>sortBy = null\<close> and \<^verbatim>\<open>sortOrder = 'asc'\<close>.
\<close>

theorem query_change_resets_page:
  "page (debouncedSearch term st) = 1 \<and> searchTerm (debouncedSearch term st) = term
   \<and> page (updateFilters newFilters st) = 1
   \<and> page (updateSort field ord st) = 1
   \<and> page (clearFilters st) = 1
   \<and> filters (updateFilters newFilters st) k
        = (case newFilters k of Some v \<Rightarrow> Some v | None \<Rightarrow> filters st k)
   \<and> filters (clearFilters st) = Map.empty
   \<and> searchTerm (clearFilters st) = []
   \<and> sortBy (clearFilters st) = None
   \<and> sortOrder (clearFilters st) = ''asc''"
  by (simp add: debouncedSearch_def updateFilters_def updateSort_def clearFilters_def
      map_add_def split: option.splits)

lemma fresh_calls_page:
  "fresh_calls f es \<Longrightarrow> (f \<longrightarrow> rendered h = pending h)
   \<Longrightarrow> 1 \<le> page (rendered h) \<Longrightarrow> 1 \<le> page (pending h)
   \<Longrightarrow> 1 \<le> page (rendered (foldl pagination_step h es))
       \<and> 1 \<le> page (pending (foldl pagination_step h es))"
proof (induction es arbitrary: f h)
  case Nil
  then show ?case by simp
next
  case (Cons e es)
  show ?case
  proof (cases e)
    case Render
    with Cons.prems Cons.IH [of True "pagination_step h e"] show ?thesis by simp
  next
    case NextPage
    with Cons.prems Cons.IH [of False "pagination_step h e"] show ?thesis
      by (simp add: nextPage_def)
  next
    case PrevPage
    with Cons.prems Cons.IH [of False "pagination_step h e"] show ?thesis
      by (simp add: prevPage_def)
  next
    case (GoToPage n)
    with Cons.prems Cons.IH [of False "pagination_step h e"] show ?thesis
      by (simp add: goToPage_def)
  next
    case (SetPage n)
    with Cons.prems Cons.IH [of False "pagination_step h e"] show ?thesis
      by (simp add: setPage_def)
  next
    case (Search s)
    with Cons.prems Cons.IH [of False "pagination_step h e"] show ?thesis
      by (simp add: debouncedSearch_def)
  next
    case (UpdateFilters newFilters)
    with Cons.prems Cons.IH [of False "pagination_step h e"] show ?thesis
      by (simp add: updateFilters_def)
  next
    case (UpdateSort field ord)
    with Cons.prems Cons.IH [of False "pagination_step h e"] show ?thesis
      by (simp add: updateSort_def)
  next
    case ClearFilters
    with Cons.prems Cons.IH [of False "pagination_step h e"] show ?thesis
      by (simp add: clearFilters_def)
  next
    case (Response r)
    with Cons.prems Cons.IH [of False "pagination_step h e"] show ?thesis
      by (simp add: response_effect_def)
  qed
qed

text \<open>
  C5, as stated, fails in two ways. Next to \<^verbatim>\<open>nextPage\<close>, \<^verbatim>\<open>prevPage\<close> and
  \<^verbatim>\<open>goToPage\<close> the hook returns the state setter \<^verbatim>\<open>setPage\<close> itself, which checks
  nothing, so the page can be put below 1. And the guards of \<^verbatim>\<open>prevPage\<close> and
  \<^verbatim>\<open>nextPage\<close> test the page of the render while the update is applied to the pending
  page: on page 2 of 3, two calls of \<^verbatim>\<open>prevPage\<close> before the next render give page 0,
  and two calls of \<^verbatim>\<open>nextPage\<close> give page 4.
\<close>

theorem page_invariant_counterexample:
  "page (rendered (foldl pagination_step (usePaginatedApi_mount 1) [SetPage 0, Render])) = 0
   \<and> page (rendered (foldl pagination_step (usePaginatedApi_mount 1)
        [Response \<lparr>has_data = True, last_page = Some 3, total = Some 25\<rparr>, Render,
         GoToPage 2, Render, PrevPage, PrevPage, Render])) = 0
   \<and> page (rendered (foldl pagination_step (usePaginatedApi_mount 1)
        [Response \<lparr>has_data = True, last_page = Some 3, total = Some 25\<rparr>, Render,
         GoToPage 2, Render, NextPage, NextPage, Render])) = 4
   \<and> totalPages (rendered (foldl pagination_step (usePaginatedApi_mount 1)
        [Response \<lparr>has_data = True, last_page = Some 3, total = Some 25\<rparr>, Render,
         GoToPage 2, Render, NextPage, NextPage, Render])) = 3"
  by (simp add: usePaginatedApi_mount_def usePaginatedApi_init_def setPage_def nextPage_def
      prevPage_def goToPage_def response_effect_def)

text \<open>
  C5 (as amended). Starting from \<^verbatim>\<open>initialPage = 1\<close>, the page, rendered and pending,
  stays at least 1 in every run in which each call of \<^verbatim>\<open>nextPage\<close>, \<^verbatim>\<open>prevPage\<close> and
  \<^verbatim>\<open>goToPage\<close> is the first state change after a render and \<^verbatim>\<open>setPage\<close>, the
  unguarded setter the hook also returns, is called with numbers that are at least 1;
  searches, filter and sort changes, responses and renders may come in any order.
  \<^verbatim>\<open>nextPage\<close> increments the pending page only when the page of the render that made
  it is less than the \<^verbatim>\<open>totalPages\<close> of that render, \<^verbatim>\<open>prevPage\<close> decrements it only
  when the page of that render is greater than 1, \<^verbatim>\<open>goToPage(n)\<close> sets it only when
  \<open>1 \<le> n \<le> totalPages\<close> of that render; in a call that is the first state change after
  the render these are the current page and \<^verbatim>\<open>totalPages\<close>. \<^verbatim>\<open>hasNextPage\<close> holds
  exactly when \<open>page < totalPages\<close> and \<^verbatim>\<open>hasPrevPage\<close> exactly when \<open>page > 1\<close>, of the
  render that returned them.
\<close>

theorem pagination_bounds:
  "(fresh_calls True es
      \<longrightarrow> 1 \<le> page (rendered (foldl pagination_step (usePaginatedApi_mount 1) es))
          \<and> 1 \<le> page (pending (foldl pagination_step (usePaginatedApi_mount 1) es)))
   \<and> page (rendered (usePaginatedApi_mount initialPage)) = initialPage
   \<and> pending (usePaginatedApi_mount initialPage) = rendered (usePaginatedApi_mount initialPage)
   \<and> nextPage r st = (if page r < totalPages r then st\<lparr>page := page st + 1\<rparr> else st)
   \<and> prevPage r st = (if page r > 1 then st\<lparr>page := page st - 1\<rparr> else st)
   \<and> goToPage r n st = (if 1 \<le> n \<and> n \<le> totalPages r then st\<lparr>page := n\<rparr> else st)
   \<and> setPage n st = st\<lparr>page := n\<rparr>
   \<and> pagination_step h Render = \<lparr> rendered = pending h, pending = pending h \<rparr>
   \<and> pagination_step h NextPage
        = \<lparr> rendered = rendered h, pending = nextPage (rendered h) (pending h) \<rparr>
   \<and> pagination_step h PrevPage
        = \<lparr> rendered = rendered h, pending = prevPage (rendered h) (pending h) \<rparr>
   \<and> pagination_step h (GoToPage n)
        = \<lparr> rendered = rendered h, pending = goToPage (rendered h) n (pending h) \<rparr>
   \<and> pagination_step h (SetPage n) = \<lparr> rendered = rendered h, pending = setPage n (pending h) \<rparr>
   \<and> pagination_step h (Search s)
        = \<lparr> rendered = rendered h, pending = debouncedSearch s (pending h) \<rparr>
   \<and> pagination_step h (UpdateFilters newFilters)
        = \<lparr> rendered = rendered h, pending = updateFilters newFilters (pending h) \<rparr>
   \<and> pagination_step h (UpdateSort field ord)
        = \<lparr> rendered = rendered h, pending = updateSort field ord (pending h) \<rparr>
   \<and> pagination_step h ClearFilters = \<lparr> rendered = rendered h, pending = clearFilters (pending h) \<rparr>
   \<and> pagination_step h (Response resp)
        = \<lparr> rendered = rendered h,
            pending = (if has_data resp
                       then (pending h)
                              \<lparr>totalPages := (case last_page resp of None \<Rightarrow> 0 | Some k \<Rightarrow> k),
                               totalItems := (case total resp of None \<Rightarrow> 0 | Some k \<Rightarrow> k)\<rparr>
                       else pending h) \<rparr>
   \<and> (rendered h = pending h
        \<longrightarrow> page (pending (pagination_step h NextPage))
              = (if page (pending h) < totalPages (pending h) then page (pending h) + 1
                 else page (pending h))
          \<and> page (pending (pagination_step h PrevPage))
              = (if page (pending h) > 1 then page (pending h) - 1 else page (pending h))
          \<and> page (pending (pagination_step h (GoToPage n)))
              = (if 1 \<le> n \<and> n \<le> totalPages (pending h) then n else page (pending h)))
   \<and> (hasNextPage st \<longleftrightarrow> page st < totalPages st)
   \<and> (hasPrevPage st \<longleftrightarrow> page st > 1)"
proof -
  have inv: "fresh_calls True es
      \<longrightarrow> 1 \<le> page (rendered (foldl pagination_step (usePaginatedApi_mount 1) es))
          \<and> 1 \<le> page (pending (foldl pagination_step (usePaginatedApi_mount 1) es))"
    using fresh_calls_page [of True es "usePaginatedApi_mount 1"]
    by (simp add: usePaginatedApi_mount_def usePaginatedApi_init_def)
  have ops: "nextPage r st = (if page r < totalPages r then st\<lparr>page := page st + 1\<rparr> else st)
      \<and> prevPage r st = (if page r > 1 then st\<lparr>page := page st - 1\<rparr> else st)
      \<and> goToPage r n st = (if 1 \<le> n \<and> n \<le> totalPages r then st\<lparr>page := n\<rparr> else st)
      \<and> setPage n st = st\<lparr>page := n\<rparr>"
    by (simp add: nextPage_def prevPage_def goToPage_def setPage_def)
  have fresh: "rendered h = pending h
        \<longrightarrow> page (pending (pagination_step h NextPage))
              = (if page (pending h) < totalPages (pending h) then page (pending h) + 1
                 else page (pending h))
          \<and> page (pending (pagination_step h PrevPage))
              = (if page (pending h) > 1 then page (pending h) - 1 else page (pending h))
          \<and> page (pending (pagination_step h (GoToPage n)))
              = (if 1 \<le> n \<and> n \<le> totalPages (pending h) then n else page (pending h))"
    by (simp add: nextPage_def prevPage_def goToPage_def)
  from inv ops fresh show ?thesis
    by (simp add: usePaginatedApi_mount_def usePaginatedApi_init_def hasNextPage_def
        hasPrevPage_def response_effect_def)
qed

theorem pagination_bounds_witness:
  "fresh_calls True
     [Response \<lparr>has_data = True, last_page = Some 3, total = Some 25\<rparr>, Render,
      NextPage, Render, NextPage, Render, NextPage, Render, PrevPage, Render,
      GoToPage 7, Render, PrevPage, Render, PrevPage, Search ''census'', Render,
      GoToPage 3, UpdateSort (Some ''title'') None, Render, GoToPage 2,
      UpdateFilters [''category'' \<mapsto> JStr ''Trade''], ClearFilters, SetPage 2, Render]
   \<and> map (\<lambda>k. page (rendered (foldl pagination_step (usePaginatedApi_mount 1)
        (take k
     [Response \<lparr>has_data = True, last_page = Some 3, total = Some 25\<rparr>, Render,
      NextPage, Render, NextPage, Render, NextPage, Render, PrevPage, Render,
      GoToPage 7, Render, PrevPage, Render, PrevPage, Search ''census'', Render,
      GoToPage 3, UpdateSort (Some ''title'') None, Render, GoToPage 2,
      UpdateFilters [''category'' \<mapsto> JStr ''Trade''], ClearFilters, SetPage 2, Render]))))
       [2, 4, 6, 8, 10, 12, 14, 17, 20, 25]
     = [1, 2, 3, 3, 2, 2, 1, 1, 1, 2]"
  using pagination_bounds [of
     "[Response \<lparr>has_data = True, last_page = Some 3, total = Some 25\<rparr>, Render,
      NextPage, Render, NextPage, Render, NextPage, Render, PrevPage, Render,
      GoToPage 7, Render, PrevPage, Render, PrevPage, Search ''census'', Render,
      GoToPage 3, UpdateSort (Some ''title'') None, Render, GoToPage 2,
      UpdateFilters [''category'' \<mapsto> JStr ''Trade''], ClearFilters, SetPage 2, Render]"]
  by (simp add: usePaginatedApi_mount_def usePaginatedApi_init_def nextPage_def prevPage_def
      goToPage_def setPage_def clearFilters_def response_effect_def debouncedSearch_def
      updateSort_def updateFilters_def)

section \<open>Validation in adminService.createUser\<close>

lemma takeWhile_split:
  assumes "length (takeWhile P xs) < length xs"
  shows "\<exists>c. xs = takeWhile P xs @ c # drop (length (takeWhile P xs) + 1) xs \<and> \<not> P c"
proof -
  from assms have ne: "dropWhile P xs \<noteq> []"
    by (metis append_Nil2 less_irrefl takeWhile_dropWhile_id)
  then obtain c ys where d: "dropWhile P xs = c # ys" by (cases "dropWhile P xs") auto
  have c: "\<not> P c" using d by (metis hd_dropWhile list.sel(1) ne)
  have xs: "xs = takeWhile P xs @ c # ys" using d by (metis takeWhile_dropWhile_id)
  have "drop (length (takeWhile P xs) + 1) xs = ys"
  proof -
    have "drop (length (takeWhile P xs) + 1) (takeWhile P xs @ c # ys) = ys" by simp
    with xs show ?thesis by metis
  qed
  with xs c show ?thesis by auto
qed

lemma takeWhile_prefix_stop:
  "\<forall>x \<in> set l. P x \<Longrightarrow> \<not> P c \<Longrightarrow> takeWhile P (l @ c # r) = l"
  by simp

lemma local_char_not_at: "local_char c \<Longrightarrow> c \<noteq> CHR ''@''"
  by (auto simp: local_char_def is_alpha_def is_digit_def)

lemma domain_char_not_at: "domain_char c \<Longrightarrow> c \<noteq> CHR ''@''"
  by (auto simp: domain_char_def is_alpha_def is_digit_def)

lemma is_alpha_not_dot: "is_alpha c \<Longrightarrow> c \<noteq> CHR ''.''"
  by (auto simp: is_alpha_def)

lemma emailRegex_imp_isValidEmail:
  assumes "emailRegex email"
  shows "isValidEmail email"
proof -
  from assms obtain l d t where e: "email = l @ ''@'' @ d @ ''.'' @ t"
    and l: "l \<noteq> []" "list_all local_char l"
    and d: "d \<noteq> []" "list_all domain_char d"
    and t: "2 \<le> length t" "list_all is_alpha t"
    unfolding emailRegex_def by blast
  have tl: "takeWhile (\<lambda>c. c \<noteq> CHR ''@'') email = l"
    using l(2) e by (simp add: list_all_iff takeWhile_prefix_stop local_char_not_at)
  have rest: "drop (length l + 1) email = d @ ''.'' @ t" using e by simp
  have tt: "rev (takeWhile (\<lambda>c. c \<noteq> CHR ''.'') (rev (d @ ''.'' @ t))) = t"
    using t(2) by (simp add: list_all_iff takeWhile_prefix_stop is_alpha_not_dot)
  show ?thesis
    unfolding isValidEmail_def Let_def tl rest tt
    using l d t e by simp
qed

lemma isValidEmail_imp_emailRegex:
  assumes "isValidEmail email"
  shows "emailRegex email"
proof -
  define l where "l = takeWhile (\<lambda>c. c \<noteq> CHR ''@'') email"
  define rest where "rest = drop (length l + 1) email"
  define t where "t = rev (takeWhile (\<lambda>c. c \<noteq> CHR ''.'') (rev rest))"
  define d where "d = take (length rest - length t - 1) rest"
  from assms have v: "length l < length email" "l \<noteq> []" "list_all local_char l"
    "length t < length rest" "d \<noteq> []" "list_all domain_char d" "2 \<le> length t"
    "list_all is_alpha t"
    unfolding isValidEmail_def Let_def l_def rest_def t_def d_def by simp_all
  from takeWhile_split [of "\<lambda>c. c \<noteq> CHR ''@''" email] v(1)
  have e1: "email = l @ CHR ''@'' # rest" unfolding l_def rest_def by auto
  have lt: "length (takeWhile (\<lambda>c. c \<noteq> CHR ''.'') (rev rest)) < length (rev rest)"
    using v(4) unfolding t_def by simp
  from takeWhile_split [OF lt]
  obtain c where r1: "rev rest = rev t @ c # drop (length t + 1) (rev rest)" and c: "c = CHR ''.''"
    unfolding t_def by auto
  have "rest = rev (drop (length t + 1) (rev rest)) @ CHR ''.'' # t"
    using r1 c by (metis rev_append rev_rev_ident rev.simps(2) append.assoc append_Cons append_Nil)
  moreover have "rev (drop (length t + 1) (rev rest)) = d"
    unfolding d_def by (simp add: rev_drop)
  ultimately have e2: "rest = d @ CHR ''.'' # t" by simp
  show ?thesis unfolding emailRegex_def
    using e1 e2 v by (intro exI [of _ l] exI [of _ d] exI [of _ t]) simp
qed

lemma isValidEmail_iff: "isValidEmail email \<longleftrightarrow> emailRegex email"
  using emailRegex_imp_isValidEmail isValidEmail_imp_emailRegex by blast


lemma emailRegex_Nil: "\<not> emailRegex []"
  by (simp add: emailRegex_def)

lemma createUser_errors_Nil:
  "createUser_errors b ud = [] \<longleftrightarrow>
     \<not> (name_rejected b ud \<or> email_missing ud \<or> email_malformed ud \<or> password_rejected ud
        \<or> role_rejected ud)"
  by (simp add: createUser_errors_def)

lemma rejects_iff:
  assumes "trim b [] = []"
  shows "createUser_rejects b ud \<longleftrightarrow>
     name_rejected b ud \<or> email_missing ud \<or> email_malformed ud \<or> password_rejected ud
        \<or> role_rejected ud"
proof -
  have n: "name_rejected b ud \<longleftrightarrow> (case ud_name ud of None \<Rightarrow> True | Some n \<Rightarrow> length (trim b n) < 2)"
    using assms by (auto simp: name_rejected_def split: option.splits)
  have e: "email_missing ud \<or> email_malformed ud
      \<longleftrightarrow> (case ud_email ud of None \<Rightarrow> True | Some e \<Rightarrow> \<not> emailRegex e)"
    by (auto simp: email_missing_def email_malformed_def isValidEmail_iff emailRegex_Nil
        split: option.splits)
  have p: "password_rejected ud \<longleftrightarrow> (case ud_password ud of None \<Rightarrow> True | Some p \<Rightarrow> length p < 8)"
    by (auto simp: password_rejected_def split: option.splits)
  have r: "role_rejected ud \<longleftrightarrow> role_of ud \<notin> {''admin'', ''editor'', ''user''}"
    by (simp add: role_rejected_def USER_ROLES_def)
  show ?thesis using n e p r unfolding createUser_rejects_def by blast
qed

lemma createUser_rejected:
  "createUser_errors b ud \<noteq> [] \<Longrightarrow>
     createUser b tr ud st = (Inl (validation_error (createUser_errors b ud)), st)"
  by (simp add: createUser_def Let_def)

lemma handleApiError_no_response: "e_response (handleApiError e) = None"
  by (simp add: handleApiError_def processed_error_def split: option.splits)

lemma api_response_error_no_response:
  "api_response_error e st = (e', c, st') \<Longrightarrow> e_response e' = None"
  by (auto simp: api_response_error_def handleApiError_no_response type_error_def
      split: option.splits if_splits)

lemma api_call_no_response:
  "api_call b tr cfg st = (Inl e, st') \<Longrightarrow> e_response e = None"
  by (cases tr)
     (auto simp: api_call_def Let_def split: if_splits prod.splits
       dest: api_response_error_no_response)

lemma createUser_accepted:
  assumes "createUser_errors b ud = []"
  shows "\<exists>name email password.
     ud_name ud = Some name \<and> ud_email ud = Some email \<and> ud_password ud = Some password
     \<and> sent (snd (createUser b tr ud st))
        = sent st @ [wire_request b
            (axios_post ''/admin/users'' (Some (createUser_payload b name email password ud))) st]
     \<and> (\<forall>errors. fst (createUser b tr ud st) \<noteq> Inl (validation_error errors))"
proof -
  from assms have ok: "\<not> name_rejected b ud" "\<not> email_missing ud" "\<not> password_rejected ud"
    by (simp_all add: createUser_errors_Nil)
  then obtain name email password where
    f: "ud_name ud = Some name" "ud_email ud = Some email" "ud_password ud = Some password"
    by (auto simp: name_rejected_def email_missing_def password_rejected_def split: option.splits)
  let ?cfg = "axios_post ''/admin/users'' (Some (createUser_payload b name email password ud))"
  obtain res st1 where a: "api_call b tr ?cfg st = (res, st1)" by (cases "api_call b tr ?cfg st")
  have s1: "sent st1 = sent st @ [wire_request b ?cfg st]"
    using api_call_sent [of b tr ?cfg st] a by simp
  have c: "createUser b tr ud st =
      (case res of Inl e \<Rightarrow> (Inl e, st1)
       | Inr response \<Rightarrow>
           (Inr \<lparr> sr_data = data response, sr_message = ''User created successfully'' \<rparr>,
            st1\<lparr>localStorage := clearCache (Some ''admin/users'') (localStorage st1)\<rparr>))"
    using assms f a by (simp add: createUser_def Let_def split: sum.splits)
  have "sent (snd (createUser b tr ud st)) = sent st1"
    unfolding c by (cases res) simp_all
  moreover have "fst (createUser b tr ud st) \<noteq> Inl (validation_error errors)" for errors
  proof (cases res)
    case (Inl e)
    with a have "e_response e = None" by (auto dest: api_call_no_response)
    then have "e \<noteq> validation_error errors" by (auto simp: validation_error_def)
    with Inl show ?thesis unfolding c by simp
  next
    case (Inr r)
    then show ?thesis unfolding c by simp
  qed
  ultimately show ?thesis using f s1 by auto
qed

lemma sample_trim_Nil: "trim sample_builtins [] = []"
  by (simp add: sample_builtins_def)

lemma sample_user_ok: "\<not> createUser_rejects sample_builtins sample_user"
  unfolding rejects_iff [OF sample_trim_Nil]
  by (simp add: sample_user_def name_rejected_def email_missing_def email_malformed_def
      password_rejected_def role_rejected_def role_of_def USER_ROLES_def sample_builtins_def
      isValidEmail_def Let_def local_char_def domain_char_def is_alpha_def is_digit_def)

lemma sample_user_bad: "createUser_rejects sample_builtins (sample_user\<lparr>ud_email := Some ''marie@insbu''\<rparr>)"
  unfolding rejects_iff [OF sample_trim_Nil]
  by (simp add: sample_user_def name_rejected_def email_missing_def email_malformed_def
      password_rejected_def role_rejected_def role_of_def USER_ROLES_def sample_builtins_def
      isValidEmail_def Let_def local_char_def domain_char_def is_alpha_def is_digit_def)

lemma sample_payload:
  "trim sample_builtins ''  Marie Uwimana '' = ''Marie Uwimana''
   \<and> trim sample_builtins (toLowerCase sample_builtins ''Marie.Uwimana@INSBU.bi'')
       = ''marie.uwimana@insbu.bi''"
  by (simp add: sample_builtins_def)


lemma sample_errors:
  "createUser_errors sample_builtins (sample_user\<lparr>ud_email := Some ''marie@insbu''\<rparr>)
     = [(''email'', JArr [JStr ''Please enter a valid email address''])]"
  by (simp add: createUser_errors_def sample_user_def name_rejected_def email_missing_def
      email_malformed_def password_rejected_def role_rejected_def role_of_def USER_ROLES_def
      sample_builtins_def isValidEmail_def Let_def local_char_def domain_char_def is_alpha_def
      is_digit_def)

text \<open>
  C8. \<^verbatim>\<open>adminService.createUser\<close> throws the object
  \<^verbatim>\<open>{ response: { status: 422, data: { errors } } }\<close> with a non-empty \<^verbatim>\<open>errors\<close>,
  and leaves the state, with the log of requests, as it was, exactly when the trimmed
  name is shorter than 2 characters, the email is missing or fails the pattern, the
  password is missing or shorter than 8 characters, or the role is not one of admin,
  editor, user. Otherwise it posts to \<^verbatim>\<open>/admin/users\<close> the trimmed name and the
  lowercased, trimmed email (with the password, the role and the status), and no error
  it may still throw is a validation error. The pattern is read as the regular
  expression, \<open>emailRegex\<close>. That \<^verbatim>\<open>''.trim()\<close> is the empty string is a fact of the
  runtime.
\<close>

theorem createUser_validation:
  assumes "trim b [] = []"
  shows "(createUser_rejects b ud \<longrightarrow>
            createUser_errors b ud \<noteq> []
            \<and> createUser b tr ud st = (Inl (validation_error (createUser_errors b ud)), st)
            \<and> e_response (validation_error (createUser_errors b ud))
                = Some \<lparr> status = 422, data = JObj [(''errors'', JObj (createUser_errors b ud))] \<rparr>)
       \<and> (\<not> createUser_rejects b ud \<longrightarrow>
            (\<exists>name email password.
               ud_name ud = Some name \<and> ud_email ud = Some email \<and> ud_password ud = Some password
               \<and> sent (snd (createUser b tr ud st))
                  = sent st @ [wire_request b
                      (axios_post ''/admin/users''
                         (Some (JObj [(''name'', JStr (trim b name)),
                                      (''email'', JStr (trim b (toLowerCase b email))),
                                      (''password'', JStr password),
                                      (''role'', JStr (role_of ud)),
                                      (''status'', JStr (status_of ud))]))) st])
            \<and> (\<forall>errors. fst (createUser b tr ud st) \<noteq> Inl (validation_error errors)))"
proof (intro conjI impI)
  assume r: "createUser_rejects b ud"
  with assms show ne: "createUser_errors b ud \<noteq> []"
    by (simp add: rejects_iff createUser_errors_Nil)
  then show "createUser b tr ud st = (Inl (validation_error (createUser_errors b ud)), st)"
    by (rule createUser_rejected)
  show "e_response (validation_error (createUser_errors b ud))
      = Some \<lparr> status = 422, data = JObj [(''errors'', JObj (createUser_errors b ud))] \<rparr>"
    by (simp add: validation_error_def)
next
  assume "\<not> createUser_rejects b ud"
  with assms have ok: "createUser_errors b ud = []"
    by (simp add: rejects_iff createUser_errors_Nil)
  from createUser_accepted [OF ok, of tr st]
  show "\<exists>name email password.
               ud_name ud = Some name \<and> ud_email ud = Some email \<and> ud_password ud = Some password
               \<and> sent (snd (createUser b tr ud st))
                  = sent st @ [wire_request b
                      (axios_post ''/admin/users''
                         (Some (JObj [(''name'', JStr (trim b name)),
                                      (''email'', JStr (trim b (toLowerCase b email))),
                                      (''password'', JStr password),
                                      (''role'', JStr (role_of ud)),
                                      (''status'', JStr (status_of ud))]))) st]"
    unfolding createUser_payload_def by blast
  from createUser_accepted [OF ok, of tr st]
  show "\<forall>errors. fst (createUser b tr ud st) \<noteq> Inl (validation_error errors)" by blast
qed

theorem createUser_validation_witness:
  "trim sample_builtins [] = []
   \<and> createUser_rejects sample_builtins (sample_user\<lparr>ud_email := Some ''marie@insbu''\<rparr>)
   \<and> createUser sample_builtins (Responded 201 JNull)
        (sample_user\<lparr>ud_email := Some ''marie@insbu''\<rparr>) logged_in
      = (Inl (validation_error [(''email'', JArr [JStr ''Please enter a valid email address''])]),
         logged_in)
   \<and> \<not> createUser_rejects sample_builtins sample_user
   \<and> map req_data (sent (snd (createUser sample_builtins (Responded 201 JNull) sample_user logged_in)))
      = [Some (JObj [(''name'', JStr ''Marie Uwimana''),
                     (''email'', JStr ''marie.uwimana@insbu.bi''),
                     (''password'', JStr ''password123''),
                     (''role'', JStr ''editor''),
                     (''status'', JStr ''active'')])]"
proof -
  note t1 = createUser_validation [OF sample_trim_Nil,
      of "sample_user\<lparr>ud_email := Some ''marie@insbu''\<rparr>" "Responded 201 JNull" logged_in]
  note t2 = createUser_validation [OF sample_trim_Nil,
      of sample_user "Responded 201 JNull" logged_in]
  from t1 sample_user_bad
  have 1: "createUser sample_builtins (Responded 201 JNull)
        (sample_user\<lparr>ud_email := Some ''marie@insbu''\<rparr>) logged_in
      = (Inl (validation_error [(''email'', JArr [JStr ''Please enter a valid email address''])]),
         logged_in)"
    by (simp add: sample_errors)
  from t2 sample_user_ok
  have "sent (snd (createUser sample_builtins (Responded 201 JNull) sample_user logged_in))
      = sent logged_in @ [wire_request sample_builtins
           (axios_post ''/admin/users''
              (Some (JObj [(''name'', JStr (trim sample_builtins ''  Marie Uwimana '')),
                 (''email'', JStr (trim sample_builtins
                     (toLowerCase sample_builtins ''Marie.Uwimana@INSBU.bi''))),
                 (''password'', JStr ''password123''),
                 (''role'', JStr (role_of sample_user)),
                 (''status'', JStr (status_of sample_user))]))) logged_in]"
    by (simp add: sample_user_def)
  then have 2: "map req_data (sent (snd (createUser sample_builtins (Responded 201 JNull) sample_user logged_in)))
      = [Some (JObj [(''name'', JStr ''Marie Uwimana''),
                     (''email'', JStr ''marie.uwimana@insbu.bi''),
                     (''password'', JStr ''password123''),
                     (''role'', JStr ''editor''),
                     (''status'', JStr ''active'')])]"
    using sample_payload
    by (simp add: wire_request_def axios_defaults_def request_interceptor_def Let_def
        axios_post_def logged_in_def client_of_def
        role_of_def status_of_def sample_user_def)
  show ?thesis using 1 2 sample_trim_Nil sample_user_ok sample_user_bad by simp
qed


section \<open>Retries\<close>

lemma attempt_shift: "attempt api k st (Suc i) = attempt api (Suc k) (snd (api k st)) i"
  by (induction i) simp_all

lemma shouldRetry_iff: "shouldRetry e i \<longleftrightarrow> i < 3 \<and> retryable e"
  by (auto simp: shouldRetry_def retryable_def retryAttempts_def split: option.splits)

lemma requestWithRetry_trace:
  "requestWithRetry api k st = (res, delays, st') \<Longrightarrow>
     delays = map backoff_delay [k..<k + length delays]
     \<and> (res, st') = attempt api k st (length delays)
     \<and> (\<forall>i<length delays. \<exists>e. fst (attempt api k st i) = Inl e \<and> shouldRetry e (k + i))
     \<and> (case res of Inr r \<Rightarrow> True | Inl e \<Rightarrow> \<not> shouldRetry e (k + length delays))"
proof (induction api k st arbitrary: res delays st' rule: requestWithRetry.induct)
  case (1 api retryCount st)
  obtain out st1 where a: "api retryCount st = (out, st1)" by (cases "api retryCount st")
  show ?case
  proof (cases out)
    case (Inr r)
    with a "1.prems" show ?thesis by (auto simp: requestWithRetry.simps)
  next
    case (Inl e)
    show ?thesis
    proof (cases "shouldRetry e retryCount")
      case False
      with a Inl "1.prems" show ?thesis by (auto simp: requestWithRetry.simps)
    next
      case True
      obtain res1 delays1 st2 where
        r: "requestWithRetry api (retryCount + 1) st1 = (res1, delays1, st2)"
        by (cases "requestWithRetry api (retryCount + 1) st1")
      from "1.prems" a Inl True r
      have eq: "res = res1" "delays = backoff_delay retryCount # delays1" "st' = st2"
        by (simp_all add: requestWithRetry.simps)
      from "1.IH" [OF a [symmetric] Inl True r]
      have ih: "delays1 = map backoff_delay [retryCount + 1..<retryCount + 1 + length delays1]"
        "(res1, st2) = attempt api (retryCount + 1) st1 (length delays1)"
        "\<forall>i<length delays1. \<exists>e. fst (attempt api (retryCount + 1) st1 i) = Inl e
            \<and> shouldRetry e (retryCount + 1 + i)"
        "case res1 of Inr r \<Rightarrow> True | Inl e \<Rightarrow> \<not> shouldRetry e (retryCount + 1 + length delays1)"
        by blast+
      have st1: "st1 = snd (api retryCount st)" using a by simp
      have len: "length delays = Suc (length delays1)" using eq(2) by simp
      have u: "[retryCount..<retryCount + length delays]
          = retryCount # [retryCount + 1..<retryCount + 1 + length delays1]"
        unfolding len by (subst upt_conv_Cons) simp_all
      have "backoff_delay retryCount # delays1
          = map backoff_delay (retryCount # [retryCount + 1..<retryCount + 1 + length delays1])"
        using ih(1) by (metis list.simps(9))
      then have d: "delays = map backoff_delay [retryCount..<retryCount + length delays]"
        using u eq(2) by metis
      have t: "(res, st') = attempt api retryCount st (length delays)"
        using ih(2) eq st1 by (simp add: attempt_shift del: attempt.simps)
      have q: "\<exists>e. fst (attempt api retryCount st i) = Inl e \<and> shouldRetry e (retryCount + i)"
        if "i < length delays" for i
      proof (cases i)
        case 0
        with a Inl True show ?thesis by simp
      next
        case (Suc j)
        with that eq(2) have "j < length delays1" by simp
        with ih(3) obtain e' where "fst (attempt api (retryCount + 1) st1 j) = Inl e'"
          "shouldRetry e' (retryCount + 1 + j)" by blast
        with Suc st1 show ?thesis by (simp add: attempt_shift del: attempt.simps)
      qed
      have l: "case res of Inr r \<Rightarrow> True | Inl e \<Rightarrow> \<not> shouldRetry e (retryCount + length delays)"
        using ih(4) eq by (cases res1) simp_all
      from d t q l show ?thesis by blast
    qed
  qed
qed


lemma requestWithRetry_sent:
  "requestWithRetry (\<lambda>k. api_call b (net k) cfg) k st = (res, delays, st') \<Longrightarrow>
     \<exists>new. sent st' = sent st @ new \<and> length new = length delays + 1
       \<and> list_all (\<lambda>c. req_method c = req_method cfg \<and> url c = url cfg
                        \<and> req_data c = req_data cfg \<and> params c = params cfg) new"
proof (induction "\<lambda>k. api_call b (net k) cfg" k st arbitrary: res delays st'
    rule: requestWithRetry.induct)
  case (1 retryCount st)
  obtain out st1 where a: "api_call b (net retryCount) cfg st = (out, st1)"
    by (cases "api_call b (net retryCount) cfg st")
  have s1: "sent st1 = sent st @ [wire_request b cfg st]"
    using api_call_sent [of b "net retryCount" cfg st] a by simp
  have ri: "req_method (wire_request b cfg st) = req_method cfg
      \<and> url (wire_request b cfg st) = url cfg
      \<and> req_data (wire_request b cfg st) = req_data cfg
      \<and> params (wire_request b cfg st) = params cfg"
    by (simp add: wire_request_fields)
  show ?case
  proof (cases out)
    case (Inr r)
    with a "1.prems" s1 ri show ?thesis by (auto simp: requestWithRetry.simps)
  next
    case (Inl e)
    show ?thesis
    proof (cases "shouldRetry e retryCount")
      case False
      with a Inl "1.prems" s1 ri show ?thesis by (auto simp: requestWithRetry.simps)
    next
      case True
      obtain res1 delays1 st2 where
        r: "requestWithRetry (\<lambda>k. api_call b (net k) cfg) (retryCount + 1) st1 = (res1, delays1, st2)"
        by (cases "requestWithRetry (\<lambda>k. api_call b (net k) cfg) (retryCount + 1) st1")
      from "1.prems" a Inl True r
      have eq: "delays = backoff_delay retryCount # delays1" "st' = st2"
        by (simp_all add: requestWithRetry.simps)
      from "1.hyps" [OF a [symmetric] Inl True r]
      obtain new1 where n: "sent st2 = sent st1 @ new1" "length new1 = length delays1 + 1"
        "list_all (\<lambda>c. req_method c = req_method cfg \<and> url c = url cfg
                        \<and> req_data c = req_data cfg \<and> params c = params cfg) new1"
        by blast
      show ?thesis
        using n s1 ri eq
        by (intro exI [of _ "wire_request b cfg st # new1"]) simp
    qed
  qed
qed

lemma requestWithRetry_first:
  assumes "requestWithRetry (\<lambda>k. api_call b (net k) cfg) k st = (res, delays, st')"
  shows "\<exists>rest. sent st' = sent st @ wire_request b cfg st # rest"
proof -
  obtain out st1 where a: "api_call b (net k) cfg st = (out, st1)"
    by (cases "api_call b (net k) cfg st")
  have s1: "sent st1 = sent st @ [wire_request b cfg st]"
    using api_call_sent [of b "net k" cfg st] a by simp
  show ?thesis
  proof (cases "\<exists>e. out = Inl e \<and> shouldRetry e k")
    case False
    with a assms have "st' = st1"
      by (cases out) (auto simp: requestWithRetry.simps)
    with s1 show ?thesis by simp
  next
    case True
    then obtain e where e: "out = Inl e" "shouldRetry e k" by blast
    obtain res1 delays1 st2 where
      r: "requestWithRetry (\<lambda>k. api_call b (net k) cfg) (k + 1) st1 = (res1, delays1, st2)"
      by (cases "requestWithRetry (\<lambda>k. api_call b (net k) cfg) (k + 1) st1")
    from assms a e r have "st' = st2" by (simp add: requestWithRetry.simps)
    moreover from requestWithRetry_sent [OF r] obtain new where "sent st2 = sent st1 @ new"
      by blast
    ultimately show ?thesis using s1 by simp
  qed
qed

lemma take_backoff:
  "n \<le> 3 \<Longrightarrow> map backoff_delay [0..<n] = take n [1000, 2000, 4000]"
proof -
  assume "n \<le> 3"
  then consider "n = 0" | "n = 1" | "n = 2" | "n = 3" by linarith
  then show ?thesis
    by cases (simp_all add: backoff_delay_def retryDelay_def upt_rec numeral_2_eq_2 numeral_3_eq_3)
qed

lemma requestWithRetry_bounds:
  "requestWithRetry api 0 st = (res, delays, st') \<longrightarrow>
     length delays \<le> 3
     \<and> delays = take (length delays) [1000, 2000, 4000]
     \<and> (res, st') = attempt api 0 st (length delays)
     \<and> (\<forall>i<length delays. \<exists>e. fst (attempt api 0 st i) = Inl e \<and> retryable e)
     \<and> (case res of Inr r \<Rightarrow> True | Inl e \<Rightarrow> length delays = 3 \<or> \<not> retryable e)"
proof
  assume r: "requestWithRetry api 0 st = (res, delays, st')"
  note t = requestWithRetry_trace [OF r]
  from t have d: "delays = map backoff_delay [0..<length delays]" by simp
  from t have a: "(res, st') = attempt api 0 st (length delays)" by simp
  from t have q: "\<forall>i<length delays. \<exists>e. fst (attempt api 0 st i) = Inl e \<and> shouldRetry e i"
    by simp
  from t have l: "case res of Inr r \<Rightarrow> True | Inl e \<Rightarrow> \<not> shouldRetry e (length delays)"
    by (cases res) simp_all
  have n: "length delays \<le> 3"
  proof (cases "length delays")
    case 0
    then show ?thesis by simp
  next
    case (Suc m)
    with q obtain e where "shouldRetry e m" by auto
    with Suc show ?thesis by (simp add: shouldRetry_iff)
  qed
  have d': "delays = take (length delays) [1000, 2000, 4000]"
    using d take_backoff [OF n] by simp
  have q': "\<forall>i<length delays. \<exists>e. fst (attempt api 0 st i) = Inl e \<and> retryable e"
    using q by (auto simp: shouldRetry_iff)
  have l': "case res of Inr r \<Rightarrow> True | Inl e \<Rightarrow> length delays = 3 \<or> \<not> retryable e"
    using l n by (auto simp: shouldRetry_iff split: sum.splits)
  from n d' a q' l' show "length delays \<le> 3
     \<and> delays = take (length delays) [1000, 2000, 4000]
     \<and> (res, st') = attempt api 0 st (length delays)
     \<and> (\<forall>i<length delays. \<exists>e. fst (attempt api 0 st i) = Inl e \<and> retryable e)
     \<and> (case res of Inr r \<Rightarrow> True | Inl e \<Rightarrow> length delays = 3 \<or> \<not> retryable e)"
    by blast
qed


lemma postOptimistic_sent:
  "postOptimistic b net u d cst = (pres, pdelays, cst') \<longrightarrow>
     (\<exists>new. sent cst' = sent cst @ new \<and> length new = length pdelays + 1
        \<and> list_all (\<lambda>c. req_method c = ''POST'' \<and> url c = u \<and> req_data c = Some d
                          \<and> params c = None) new)"
proof
  assume "postOptimistic b net u d cst = (pres, pdelays, cst')"
  then have "requestWithRetry (\<lambda>k. api_call b (net k) (post_config u d)) 0 cst = (pres, pdelays, cst')"
    by (simp add: postOptimistic_def)
  from requestWithRetry_sent [OF this]
  show "\<exists>new. sent cst' = sent cst @ new \<and> length new = length pdelays + 1
        \<and> list_all (\<lambda>c. req_method c = ''POST'' \<and> url c = u \<and> req_data c = Some d
                          \<and> params c = None) new"
    by (simp add: post_config_def)
qed

lemmas api_eval =
  requestWithRetry.simps api_call_def Let_def api_response_error_def axios_error_def
  handleApiError_def processed_error_def shouldRetry_def retryAttempts_def
  wire_request_def axios_defaults_def request_interceptor_def storage_get_def getItem_def
  client_of_def empty_storage_def post_config_def get_config_def plain_config_def AUTH_TOKEN_def HTTP_UNAUTHORIZED_def
  HTTP_UNPROCESSABLE_ENTITY_def backoff_delay_def retryDelay_def

lemma flaky_request:
  "requestWithRetry
     (\<lambda>k. api_call sample_builtins (if k < 2 then Responded 503 JNull else Responded 200 (JObj []))
            (get_config ''/news'' plain_config))
     0 (client_of empty_storage)
   = (Inr \<lparr> status = 200, data = JObj [] \<rparr>, [1000, 2000],
      (client_of empty_storage)
        \<lparr>sent := [get_config ''/news'' plain_config, get_config ''/news'' plain_config,
                  get_config ''/news'' plain_config]\<rparr>)"
  by (simp add: api_eval)

text \<open>
  Every error that \<^verbatim>\<open>api(config)\<close> rejects with has been rebuilt by
  \<^verbatim>\<open>handleApiError\<close> in the response interceptor and has neither \<^verbatim>\<open>response\<close> nor
  \<^verbatim>\<open>code\<close>.
\<close>

lemma api_call_error_retryable:
  "api_call b tr cfg st = (Inl e, st') \<Longrightarrow> retryable e"
  by (cases tr)
     (auto simp: api_call_def Let_def api_response_error_def handleApiError_def
       processed_error_def type_error_def retryable_def
       split: if_splits prod.splits option.splits)


text \<open>
  C2, as stated, fails. It is not only idempotent requests that are retried:
  \<^verbatim>\<open>postOptimistic\<close> sends its POST through \<^verbatim>\<open>requestWithRetry\<close>, and a POST that
  the server answers with 500 each time is sent four times. And on the errors that
  \<^verbatim>\<open>api\<close> rejects with, a 404 and a timeout are retried three times as well.
\<close>

theorem requestWithRetry_retries_counterexample:
  "map req_method (sent (snd (snd (postOptimistic sample_builtins (\<lambda>k. Responded 500 JNull)
        ''/news'' (JObj []) (client_of empty_storage)))))
      = [''POST'', ''POST'', ''POST'', ''POST'']
   \<and> fst (snd (requestWithRetry
        (\<lambda>k. api_call sample_builtins (Responded 404 JNull) (get_config ''/news'' plain_config))
        0 (client_of empty_storage))) = [1000, 2000, 4000]
   \<and> fst (snd (requestWithRetry
        (\<lambda>k. api_call sample_builtins (NoResponse ''ECONNABORTED'' ''timeout of 30000ms exceeded'')
               (get_config ''/news'' plain_config))
        0 (client_of empty_storage))) = [1000, 2000, 4000]"
  by (simp add: postOptimistic_def api_eval)

text \<open>
  C2 (as amended). \<^verbatim>\<open>requestWithRetry\<close> re-issues a request, whatever its method
  (\<^verbatim>\<open>postOptimistic\<close> sends POST requests through it, each attempt on the wire),
  exactly when the error it catches has no \<^verbatim>\<open>response\<close> or a response status of 500
  or more, the \<^verbatim>\<open>code\<close> of the error is not \<^verbatim>\<open>ECONNABORTED\<close>, and fewer than 3
  retries have been made; it waits 1000, 2000, 4000 milliseconds before the first,
  second and third retry. So the delays are a prefix of 1000, 2000, 4000, every attempt
  before the last failed with such an error, the outcome is that of the last attempt,
  and a last attempt that failed either was the fourth or failed with another error.
\<close>

theorem requestWithRetry_retries:
  "(requestWithRetry api 0 st = (res, delays, st') \<longrightarrow>
      length delays \<le> 3
      \<and> delays = take (length delays) [1000, 2000, 4000]
      \<and> (res, st') = attempt api 0 st (length delays)
      \<and> (\<forall>i<length delays. \<exists>e. fst (attempt api 0 st i) = Inl e \<and> retryable e)
      \<and> (case res of Inr r \<Rightarrow> True | Inl e \<Rightarrow> length delays = 3 \<or> \<not> retryable e))
   \<and> (postOptimistic b net u d cst = (pres, pdelays, cst') \<longrightarrow>
        (\<exists>new. sent cst' = sent cst @ new \<and> length new = length pdelays + 1
           \<and> list_all (\<lambda>c. req_method c = ''POST'' \<and> url c = u \<and> req_data c = Some d
                          \<and> params c = None) new))"
  using requestWithRetry_bounds [of api st res delays st']
    postOptimistic_sent [of b net u d cst pres pdelays cst']
  by blast

theorem requestWithRetry_retries_witness:
  "requestWithRetry
     (\<lambda>k. api_call sample_builtins (if k < 2 then Responded 503 JNull else Responded 200 (JObj []))
            (get_config ''/news'' plain_config))
     0 (client_of empty_storage)
   = (Inr \<lparr> status = 200, data = JObj [] \<rparr>, [1000, 2000],
      (client_of empty_storage)
        \<lparr>sent := [get_config ''/news'' plain_config, get_config ''/news'' plain_config,
                  get_config ''/news'' plain_config]\<rparr>)
   \<and> [1000, 2000] = take (length [1000, 2000 :: int]) [1000, 2000, 4000 :: int]
   \<and> (Inr \<lparr> status = 200, data = JObj [] \<rparr>,
       (client_of empty_storage)
        \<lparr>sent := [get_config ''/news'' plain_config, get_config ''/news'' plain_config,
                  get_config ''/news'' plain_config]\<rparr>)
      = attempt
          (\<lambda>k. api_call sample_builtins
                 (if k < 2 then Responded 503 JNull else Responded 200 (JObj []))
                 (get_config ''/news'' plain_config))
          0 (client_of empty_storage) (Suc (Suc 0))"
  using requestWithRetry_retries
    [of "\<lambda>k. api_call sample_builtins
                 (if k < 2 then Responded 503 JNull else Responded 200 (JObj []))
                 (get_config ''/news'' plain_config)"
       "client_of empty_storage" "Inr \<lparr> status = 200, data = JObj [] \<rparr>" "[1000, 2000]"
       "(client_of empty_storage)
        \<lparr>sent := [get_config ''/news'' plain_config, get_config ''/news'' plain_config,
                  get_config ''/news'' plain_config]\<rparr>"]
    flaky_request
  by simp


section \<open>The cached GET\<close>

lemma cache_hit_entry:
  "cache_hit b now config (cache_entry d t) \<longleftrightarrow> now - t < cache_duration config"
  by (simp add: cache_hit_def entry_age_def cache_entry_def)

lemma cache_miss_missing:
  "items ls key = None \<Longrightarrow> \<not> cache_hit b now config (storage_get b key ls)"
  by (simp add: storage_get_missing cache_hit_def)

lemma cache_duration_default: "cacheDuration config = None \<Longrightarrow> cache_duration config = 300000"
  by (simp add: cache_duration_def)

lemma cacheKey_inj:
  assumes "serializable b p1" "serializable b p2" "truthy p1" "truthy p2"
  shows "cacheKey b u (config\<lparr>cfg_params := Some p1\<rparr>) = cacheKey b u (config\<lparr>cfg_params := Some p2\<rparr>)
     \<longleftrightarrow> p1 = p2"
proof
  assume "cacheKey b u (config\<lparr>cfg_params := Some p1\<rparr>) = cacheKey b u (config\<lparr>cfg_params := Some p2\<rparr>)"
  with assms(3,4) have "JSON_stringify b p1 = JSON_stringify b p2"
    by (simp add: cacheKey_def)
  with assms(1,2) show "p1 = p2" by (metis option.inject serializable_def)
qed simp

lemma getWithCache_hit:
  assumes "useCache config \<noteq> Some False"
    and "cache_hit b now config (storage_get b (cacheKey b u config) (localStorage st))"
  shows "getWithCache b now now' net u config st
     = (Inr \<lparr> res_data = get_field (storage_get b (cacheKey b u config) (localStorage st)) ''data'',
              res_status = None, fromCache = True \<rparr>, st)"
  using assms by (simp add: getWithCache_def Let_def)

lemma getWithCache_miss:
  assumes "useCache config \<noteq> Some False"
    and "\<not> cache_hit b now config (storage_get b (cacheKey b u config) (localStorage st))"
  shows "getWithCache b now now' net u config st
     = (case requestWithRetry (\<lambda>retryCount. api_call b (net retryCount) (get_config u config)) 0 st of
          (Inl e, delays, st1) \<Rightarrow> (Inl e, st1)
        | (Inr response, delays, st1) \<Rightarrow>
            (Inr \<lparr> res_data = Some (data response), res_status = Some (status response),
                   fromCache = False \<rparr>,
             if status response = 200
             then st1\<lparr>localStorage :=
                    snd (storage_set b (cacheKey b u config) (cache_entry (data response) now')
                           (localStorage st1))\<rparr>
             else st1))"
  using assms by (simp add: getWithCache_def Let_def HTTP_OK_def split: prod.splits sum.splits)


lemma getWithCache_shared:
  assumes enabled: "useCache config \<noteq> Some False"
    and miss: "\<not> cache_hit b now config (storage_get b (cacheKey b u config) (localStorage st))"
    and net: "requestWithRetry (\<lambda>k. api_call b (net k) (get_config u config)) 0 st
        = (Inr response, delays, st1)"
    and ok: "status response = 200"
    and ser: "serializable b (cache_entry (data response) now')"
    and acc: "fst (storage_set b (cacheKey b u config) (cache_entry (data response) now')
                (localStorage st1))"
    and fresh: "now2 - now' < cache_duration config"
  shows "getWithCache b now2 now2' net2 u config (snd (getWithCache b now now' net u config st))
     = (Inr \<lparr> res_data = Some (data response), res_status = None, fromCache = True \<rparr>,
        snd (getWithCache b now now' net u config st))"
proof -
  let ?key = "cacheKey b u config"
  let ?entry = "cache_entry (data response) now'"
  let ?st2 = "st1\<lparr>localStorage := snd (storage_set b ?key ?entry (localStorage st1))\<rparr>"
  have first: "snd (getWithCache b now now' net u config st) = ?st2"
    using getWithCache_miss [OF enabled miss, of now' net] net ok by simp
  have stored: "storage_get b ?key (localStorage ?st2) = ?entry"
    using storage_get_set [OF ser acc] by simp
  have hit: "cache_hit b now2 config (storage_get b ?key (localStorage ?st2))"
    unfolding stored using fresh by (simp add: cache_hit_entry)
  have "getWithCache b now2 now2' net2 u config ?st2
      = (Inr \<lparr> res_data = get_field ?entry ''data'', res_status = None, fromCache = True \<rparr>, ?st2)"
    using getWithCache_hit [OF enabled hit, of now2' net2] unfolding stored .
  then show ?thesis unfolding first by (simp add: cache_entry_def)
qed

lemma getWithCache_sends:
  assumes "\<not> (useCache config \<noteq> Some False
             \<and> cache_hit b now config (storage_get b (cacheKey b u config) (localStorage st)))"
  shows "\<exists>new. sent (snd (getWithCache b now now' net u config st)) = sent st @ new
           \<and> hd new = wire_request b (get_config u config) st
           \<and> 1 \<le> length new \<and> length new \<le> 4
           \<and> list_all (\<lambda>c. req_method c = ''GET'' \<and> url c = u \<and> params c = cfg_params config
                            \<and> req_data c = None) new"
proof -
  obtain res delays st1 where
    r: "requestWithRetry (\<lambda>k. api_call b (net k) (get_config u config)) 0 st = (res, delays, st1)"
    by (cases "requestWithRetry (\<lambda>k. api_call b (net k) (get_config u config)) 0 st")
  from assms r have s: "sent (snd (getWithCache b now now' net u config st)) = sent st1"
    by (auto simp: getWithCache_def Let_def split: sum.splits)
  from requestWithRetry_sent [OF r] obtain new where
    n: "sent st1 = sent st @ new" "length new = length delays + 1"
       "list_all (\<lambda>c. req_method c = ''GET'' \<and> url c = u \<and> req_data c = None
                        \<and> params c = cfg_params config) new"
    by (auto simp: get_config_def)
  from requestWithRetry_first [OF r] n(1) have h: "hd new = wire_request b (get_config u config) st"
    by auto
  from requestWithRetry_bounds [of "\<lambda>k. api_call b (net k) (get_config u config)" st res delays st1] r
  have "length delays \<le> 3" by simp
  with s n h show ?thesis
    by (intro exI [of _ new]) (simp add: list_all_iff)
qed

lemma cache_duration_given:
  "cacheDuration config = Some d \<Longrightarrow> cache_duration config = (if d \<noteq> 0 then d else 300000)"
  by (simp add: cache_duration_def)

lemmas sample_eval =
  sample_builtins_def sample_stringify_def sample_parse_def sample_ToString_def
  news_builtins_def table_builtins_def plain_config_def client_of_def empty_storage_def
  cache_entry_def

lemma news_key: "cacheKey news_builtins ''/news'' plain_config = ''api_cache_/news_{}''"
  by (simp add: cacheKey_def sample_eval)

lemma news_miss:
  "\<not> cache_hit news_builtins 900 plain_config
       (storage_get news_builtins (cacheKey news_builtins ''/news'' plain_config)
          (localStorage (client_of empty_storage)))"
  by (simp add: cache_miss_missing client_of_def empty_storage_def)

lemma news_request:
  "requestWithRetry
     (\<lambda>k. api_call news_builtins (Responded 200 (JStr ''news'')) (get_config ''/news'' plain_config))
     0 (client_of empty_storage)
   = (Inr \<lparr> status = 200, data = JStr ''news'' \<rparr>, [],
      (client_of empty_storage)\<lparr>sent := [get_config ''/news'' plain_config]\<rparr>)"
  by (simp add: requestWithRetry.simps api_call_def Let_def wire_request_def axios_defaults_def
      request_interceptor_def storage_get_def getItem_def client_of_def empty_storage_def
      get_config_def plain_config_def)

lemma news_serializable: "serializable news_builtins (cache_entry (JStr ''news'') 1000)"
  by (simp add: serializable_def sample_eval)

text \<open>
  C3. With caching enabled (\<^verbatim>\<open>useCache\<close> not false), \<^verbatim>\<open>getWithCache\<close> resolves
  with the stored data and \<^verbatim>\<open>fromCache = true\<close>, sending nothing and changing
  nothing, exactly when the storage wrapper reads under the key
  \<^verbatim>\<open>api_cache_\<close> + url + \<^verbatim>\<open>_\<close> + \<^verbatim>\<open>JSON.stringify(params)\<close> an entry whose age
  is strictly less than the cache duration, 5 minutes by default; for an entry
  \<^verbatim>\<open>{ data, timestamp }\<close> the age is the time now minus the time stamp, and a missing
  key is no entry. Otherwise it performs the network request: between one and four
  requests go out (the first try and up to three retries), the first is the request
  with method GET, that URL, those params and no body as the axios instance sends it,
  and every one of them has method GET, that URL, those params and no body. A failure
  is thrown, a response is returned with \<^verbatim>\<open>fromCache = false\<close>, and its body is stored
  with the time stamp of that moment exactly when the status is 200. A second call
  with the same URL and params, made while the entry that the first call stored is
  fresh, is answered from that entry. Params that differ give keys that differ (for
  serializable params).
\<close>

theorem getWithCache_cache:
  assumes "useCache config \<noteq> Some False"
  shows "(cache_hit b now config (storage_get b (cacheKey b u config) (localStorage st))
          \<longrightarrow> getWithCache b now now' net u config st
              = (Inr \<lparr> res_data = get_field (storage_get b (cacheKey b u config) (localStorage st))
                                     ''data'',
                       res_status = None, fromCache = True \<rparr>, st))
     \<and> (\<not> cache_hit b now config (storage_get b (cacheKey b u config) (localStorage st))
          \<longrightarrow> getWithCache b now now' net u config st
              = (case requestWithRetry
                        (\<lambda>retryCount. api_call b (net retryCount) (get_config u config)) 0 st of
                   (Inl e, delays, st1) \<Rightarrow> (Inl e, st1)
                 | (Inr response, delays, st1) \<Rightarrow>
                     (Inr \<lparr> res_data = Some (data response), res_status = Some (status response),
                            fromCache = False \<rparr>,
                      if status response = 200
                      then st1\<lparr>localStorage :=
                             snd (storage_set b (cacheKey b u config)
                                    (cache_entry (data response) now') (localStorage st1))\<rparr>
                      else st1)))
     \<and> cacheKey b u config
          = ''api_cache_'' @ u @ ''_'' @
              JSON_stringify b (case cfg_params config of
                                  Some p \<Rightarrow> if truthy p then p else JObj [] | None \<Rightarrow> JObj [])
     \<and> (cache_hit b now config (cache_entry d t) \<longleftrightarrow> now - t < cache_duration config)
     \<and> (items (localStorage st) (cacheKey b u config) = None
          \<longrightarrow> \<not> cache_hit b now config (storage_get b (cacheKey b u config) (localStorage st)))
     \<and> (cacheDuration config = None \<longrightarrow> cache_duration config = 5 * 60 * 1000)
     \<and> (\<forall>d. cacheDuration config = Some d
          \<longrightarrow> cache_duration config = (if d \<noteq> 0 then d else 5 * 60 * 1000))
     \<and> get_config u config
          = \<lparr> req_method = ''GET'', url = u, req_data = None, params = cfg_params config,
              headers_Authorization = None, retry_mark = False \<rparr>
     \<and> (cache_hit b now config (storage_get b (cacheKey b u config) (localStorage st))
          \<longrightarrow> sent (snd (getWithCache b now now' net u config st)) = sent st)
     \<and> (\<not> cache_hit b now config (storage_get b (cacheKey b u config) (localStorage st))
          \<longrightarrow> (\<exists>new. sent (snd (getWithCache b now now' net u config st)) = sent st @ new
                 \<and> hd new
                     = wire_request b
                         \<lparr> req_method = ''GET'', url = u, req_data = None,
                           params = cfg_params config, headers_Authorization = None,
                           retry_mark = False \<rparr> st
                 \<and> 1 \<le> length new \<and> length new \<le> 4
                 \<and> list_all (\<lambda>c. req_method c = ''GET'' \<and> url c = u
                                  \<and> params c = cfg_params config \<and> req_data c = None) new))
     \<and> (\<forall>response delays st1 now2 now2' net2.
           \<not> cache_hit b now config (storage_get b (cacheKey b u config) (localStorage st))
           \<and> requestWithRetry (\<lambda>k. api_call b (net k) (get_config u config)) 0 st
               = (Inr response, delays, st1)
           \<and> status response = 200
           \<and> serializable b (cache_entry (data response) now')
           \<and> fst (storage_set b (cacheKey b u config) (cache_entry (data response) now')
                     (localStorage st1))
           \<and> now2 - now' < cache_duration config
          \<longrightarrow> getWithCache b now2 now2' net2 u config
                (snd (getWithCache b now now' net u config st))
              = (Inr \<lparr> res_data = Some (data response), res_status = None, fromCache = True \<rparr>,
                 snd (getWithCache b now now' net u config st)))
     \<and> (\<forall>p1 p2. serializable b p1 \<and> serializable b p2 \<and> truthy p1 \<and> truthy p2
          \<longrightarrow> (cacheKey b u (config\<lparr>cfg_params := Some p1\<rparr>)
                 = cacheKey b u (config\<lparr>cfg_params := Some p2\<rparr>) \<longleftrightarrow> p1 = p2))"
proof (intro conjI impI allI)
  assume "cache_hit b now config (storage_get b (cacheKey b u config) (localStorage st))"
  with assms show "getWithCache b now now' net u config st
      = (Inr \<lparr> res_data = get_field (storage_get b (cacheKey b u config) (localStorage st)) ''data'',
               res_status = None, fromCache = True \<rparr>, st)"
    by (rule getWithCache_hit)
next
  assume "\<not> cache_hit b now config (storage_get b (cacheKey b u config) (localStorage st))"
  with assms show "getWithCache b now now' net u config st
      = (case requestWithRetry
                (\<lambda>retryCount. api_call b (net retryCount) (get_config u config)) 0 st of
           (Inl e, delays, st1) \<Rightarrow> (Inl e, st1)
         | (Inr response, delays, st1) \<Rightarrow>
             (Inr \<lparr> res_data = Some (data response), res_status = Some (status response),
                    fromCache = False \<rparr>,
              if status response = 200
              then st1\<lparr>localStorage :=
                     snd (storage_set b (cacheKey b u config)
                            (cache_entry (data response) now') (localStorage st1))\<rparr>
              else st1))"
    by (rule getWithCache_miss)
next
  show "cacheKey b u config
      = ''api_cache_'' @ u @ ''_'' @
          JSON_stringify b (case cfg_params config of
                              Some p \<Rightarrow> if truthy p then p else JObj [] | None \<Rightarrow> JObj [])"
    by (simp add: cacheKey_def)
next
  show "cache_hit b now config (cache_entry d t) \<longleftrightarrow> now - t < cache_duration config"
    by (rule cache_hit_entry)
next
  assume "items (localStorage st) (cacheKey b u config) = None"
  then show "\<not> cache_hit b now config (storage_get b (cacheKey b u config) (localStorage st))"
    by (rule cache_miss_missing)
next
  assume "cacheDuration config = None"
  then show "cache_duration config = 5 * 60 * 1000" by (simp add: cache_duration_default)
next
  fix d assume "cacheDuration config = Some d"
  then show "cache_duration config = (if d \<noteq> 0 then d else 5 * 60 * 1000)"
    by (simp add: cache_duration_given)
next
  show "get_config u config
      = \<lparr> req_method = ''GET'', url = u, req_data = None, params = cfg_params config,
          headers_Authorization = None, retry_mark = False \<rparr>"
    by (simp add: get_config_def)
next
  assume "cache_hit b now config (storage_get b (cacheKey b u config) (localStorage st))"
  with assms show "sent (snd (getWithCache b now now' net u config st)) = sent st"
    by (simp add: getWithCache_hit)
next
  assume "\<not> cache_hit b now config (storage_get b (cacheKey b u config) (localStorage st))"
  then have "\<not> (useCache config \<noteq> Some False
             \<and> cache_hit b now config (storage_get b (cacheKey b u config) (localStorage st)))"
    by simp
  from getWithCache_sends [OF this, of now' net]
  show "\<exists>new. sent (snd (getWithCache b now now' net u config st)) = sent st @ new
                 \<and> hd new
                     = wire_request b
                         \<lparr> req_method = ''GET'', url = u, req_data = None,
                           params = cfg_params config, headers_Authorization = None,
                           retry_mark = False \<rparr> st
                 \<and> 1 \<le> length new \<and> length new \<le> 4
                 \<and> list_all (\<lambda>c. req_method c = ''GET'' \<and> url c = u
                                  \<and> params c = cfg_params config \<and> req_data c = None) new"
    by (simp add: get_config_def)
next
  fix response delays st1 now2 now2' net2
  assume "\<not> cache_hit b now config (storage_get b (cacheKey b u config) (localStorage st))
           \<and> requestWithRetry (\<lambda>k. api_call b (net k) (get_config u config)) 0 st
               = (Inr response, delays, st1)
           \<and> status response = 200
           \<and> serializable b (cache_entry (data response) now')
           \<and> fst (storage_set b (cacheKey b u config) (cache_entry (data response) now')
                     (localStorage st1))
           \<and> now2 - now' < cache_duration config"
  with assms show "getWithCache b now2 now2' net2 u config
                (snd (getWithCache b now now' net u config st))
              = (Inr \<lparr> res_data = Some (data response), res_status = None, fromCache = True \<rparr>,
                 snd (getWithCache b now now' net u config st))"
    by (intro getWithCache_shared) blast+
next
  fix p1 p2
  assume "serializable b p1 \<and> serializable b p2 \<and> truthy p1 \<and> truthy p2"
  then show "cacheKey b u (config\<lparr>cfg_params := Some p1\<rparr>)
                 = cacheKey b u (config\<lparr>cfg_params := Some p2\<rparr>) \<longleftrightarrow> p1 = p2"
    by (intro cacheKey_inj) blast+
qed


theorem getWithCache_cache_witness:
  "useCache plain_config \<noteq> Some False
   \<and> getWithCache news_builtins 900 1000 (\<lambda>k. Responded 200 (JStr ''news'')) ''/news'' plain_config
        (client_of empty_storage)
      = (Inr \<lparr> res_data = Some (JStr ''news''), res_status = Some 200, fromCache = False \<rparr>,
         (client_of empty_storage)
           \<lparr> sent := [\<lparr> req_method = ''GET'', url = ''/news'', req_data = None, params = None,
                        headers_Authorization = None, retry_mark = False \<rparr>],
             localStorage := empty_storage
               \<lparr>items := [''api_cache_/news_{}'' \<mapsto> ''{data:news,timestamp:1000}'']\<rparr> \<rparr>)
   \<and> getWithCache news_builtins 200000 200001 (\<lambda>k. Responded 500 JNull) ''/news'' plain_config
        (snd (getWithCache news_builtins 900 1000 (\<lambda>k. Responded 200 (JStr ''news'')) ''/news''
                plain_config (client_of empty_storage)))
      = (Inr \<lparr> res_data = Some (JStr ''news''), res_status = None, fromCache = True \<rparr>,
         snd (getWithCache news_builtins 900 1000 (\<lambda>k. Responded 200 (JStr ''news'')) ''/news''
                plain_config (client_of empty_storage)))
   \<and> sent (snd (getWithCache news_builtins 200000 200001 (\<lambda>k. Responded 500 JNull) ''/news''
                  plain_config
                  (snd (getWithCache news_builtins 900 1000 (\<lambda>k. Responded 200 (JStr ''news''))
                          ''/news'' plain_config (client_of empty_storage)))))
      = [\<lparr> req_method = ''GET'', url = ''/news'', req_data = None, params = None,
            headers_Authorization = None, retry_mark = False \<rparr>]"
proof -
  have en: "useCache plain_config \<noteq> Some False" by (simp add: plain_config_def)
  note t = getWithCache_cache [OF en, of news_builtins 900 "''/news''" "client_of empty_storage"
      1000 "\<lambda>k. Responded 200 (JStr ''news'')"]
  have g: "get_config ''/news'' plain_config
      = \<lparr> req_method = ''GET'', url = ''/news'', req_data = None, params = None,
          headers_Authorization = None, retry_mark = False \<rparr>"
    using t by (simp add: plain_config_def)
  from t news_miss news_request
  have 1: "getWithCache news_builtins 900 1000 (\<lambda>k. Responded 200 (JStr ''news'')) ''/news'' plain_config
        (client_of empty_storage)
      = (Inr \<lparr> res_data = Some (JStr ''news''), res_status = Some 200, fromCache = False \<rparr>,
         (client_of empty_storage)
           \<lparr> sent := [get_config ''/news'' plain_config],
             localStorage := empty_storage
               \<lparr>items := [''api_cache_/news_{}'' \<mapsto> ''{data:news,timestamp:1000}'']\<rparr> \<rparr>)"
    by (simp add: news_key storage_set_def setItem_def sample_eval)
  have acc: "fst (storage_set news_builtins (cacheKey news_builtins ''/news'' plain_config)
       (cache_entry (data \<lparr> status = 200, data = JStr ''news'' \<rparr>) 1000)
       (localStorage ((client_of empty_storage)\<lparr>sent := [get_config ''/news'' plain_config]\<rparr>)))"
    by (simp add: storage_set_True client_of_def empty_storage_def)
  have fresh: "(200000::int) - 1000 < cache_duration plain_config"
    by (simp add: cache_duration_def plain_config_def)
  note sh = t [THEN conjunct2, THEN conjunct2, THEN conjunct2, THEN conjunct2, THEN conjunct2,
      THEN conjunct2, THEN conjunct2, THEN conjunct2, THEN conjunct2, THEN conjunct2,
      THEN conjunct1, rule_format,
      of "\<lparr> status = 200, data = JStr ''news'' \<rparr>" "[]"
        "(client_of empty_storage)\<lparr>sent := [get_config ''/news'' plain_config]\<rparr>"
        200000 200001 "\<lambda>k. Responded 500 JNull"]
  from sh news_miss news_request acc fresh news_serializable
  have 2: "getWithCache news_builtins 200000 200001 (\<lambda>k. Responded 500 JNull) ''/news'' plain_config
        (snd (getWithCache news_builtins 900 1000 (\<lambda>k. Responded 200 (JStr ''news'')) ''/news''
                plain_config (client_of empty_storage)))
      = (Inr \<lparr> res_data = Some (JStr ''news''), res_status = None, fromCache = True \<rparr>,
         snd (getWithCache news_builtins 900 1000 (\<lambda>k. Responded 200 (JStr ''news'')) ''/news''
                plain_config (client_of empty_storage)))"
    by simp
  have 3: "sent (snd (getWithCache news_builtins 200000 200001 (\<lambda>k. Responded 500 JNull) ''/news''
                  plain_config
                  (snd (getWithCache news_builtins 900 1000 (\<lambda>k. Responded 200 (JStr ''news''))
                          ''/news'' plain_config (client_of empty_storage)))))
      = [get_config ''/news'' plain_config]"
    unfolding 2 by (simp add: 1)
  from en 1 2 3 show ?thesis unfolding g by blast
qed


section \<open>A 401 response\<close>

text \<open>
  What the handler of services/api.js rejects with has neither \<^verbatim>\<open>response\<close> nor
  \<^verbatim>\<open>config\<close>, so the handler of the AuthProvider, whatever it closes over, passes it
  on: with the provider mounted, \<^verbatim>\<open>api(config)\<close> does what it does without.
\<close>

lemma handleApiError_no_config: "e_config (handleApiError e) = None"
  by (simp add: handleApiError_def processed_error_def split: option.splits)

lemma api_response_error_no_config:
  "api_response_error e st = (e', c, st') \<Longrightarrow> e_config e' = None"
  by (auto simp: api_response_error_def handleApiError_no_config type_error_def
      split: option.splits if_splits)

lemma auth_response_error_passes:
  "e_response e = None \<Longrightarrow>
     auth_response_error b refresh api isAuth e st = (Inl e, e_config e, st)"
  by (simp add: auth_response_error_def)

lemma response_error_chain_passes:
  "response_error_chain b refresh api isAuth e st
     = (case api_response_error e st of (e1, c1, st1) \<Rightarrow> (Inl e1, c1, st1))"
proof -
  obtain e1 c1 st1 where a: "api_response_error e st = (e1, c1, st1)"
    by (cases "api_response_error e st")
  from a have "e_response e1 = None" "e_config e1 = None"
    by (auto dest: api_response_error_no_response api_response_error_no_config)
  with a show ?thesis
    by (simp add: response_error_chain_def auth_response_error_passes)
qed

lemma api_call_auth_eq:
  "api_call_auth b refresh api isAuth tr cfg st = api_call b tr cfg st"
  by (cases tr)
     (simp_all add: api_call_auth_def api_call_def Let_def response_error_chain_passes
       split: prod.splits)

text \<open>
  C1. The code at a request that the server answers with 401 while a user is logged in
  and the token \<^verbatim>\<open>abc\<close> is stored: the handler of services/api.js marks the config,
  removes the token, deletes the default header and sends the browser to
  \<^verbatim>\<open>/login\<close>; the call rejects with the error of \<^verbatim>\<open>handleApiError\<close>. The refresh
  function is not called (the token \<^verbatim>\<open>new\<close> is not stored, no refresh request is in
  the log) and the request is sent once, not re-issued.
\<close>

theorem unauthorized_no_refresh:
  "isAuthenticated logged_in
   \<and> api_call_auth sample_builtins sample_refreshToken sample_api (isAuthenticated logged_in)
        (Responded 401 JNull) (get_config ''/news'' plain_config) logged_in
      = (Inl (processed_error 401 (Some (JStr ''Request failed with status code 401''))
                ''api_error''),
         logged_in
           \<lparr> sent := [(get_config ''/news'' plain_config)
                         \<lparr>headers_Authorization := Some ''Bearer abc''\<rparr>],
             localStorage := token_storage\<lparr>items := Map.empty\<rparr>,
             defaults_Authorization := None,
             location_href := Some ''/login'' \<rparr>)
   \<and> response_error_chain sample_builtins sample_refreshToken sample_api
        (isAuthenticated logged_in)
        (axios_error sample_builtins
           ((get_config ''/news'' plain_config)\<lparr>headers_Authorization := Some ''Bearer abc''\<rparr>)
           (Responded 401 JNull))
        logged_in
      = (Inl (processed_error 401 (Some (JStr ''Request failed with status code 401''))
                ''api_error''),
         Some ((get_config ''/news'' plain_config)
                 \<lparr>headers_Authorization := Some ''Bearer abc'', retry_mark := True\<rparr>),
         logged_in
           \<lparr> localStorage := token_storage\<lparr>items := Map.empty\<rparr>,
             defaults_Authorization := None,
             location_href := Some ''/login'' \<rparr>)"
  by (simp add: api_call_auth_def response_error_chain_def api_response_error_def
      auth_response_error_def axios_error_def handleApiError_def processed_error_def
      wire_request_def axios_defaults_def request_interceptor_def Let_def storage_get_def
      getItem_def storage_remove_def
      removeItem_def logged_in_def client_of_def token_storage_def isAuthenticated_def
      get_config_def plain_config_def template_def AUTH_TOKEN_def HTTP_UNAUTHORIZED_def
      HTTP_UNPROCESSABLE_ENTITY_def sample_builtins_def sample_parse_def sample_ToString_def
      sample_digits.simps)


end
